theory Spec2Isabelle
  imports Main
begin

section \<open>Values of the relay\<close>

text \<open>
  The handlers of \<^verbatim>\<open>server.js\<close> work on parsed JSON: request bodies, the products of
  the catalog and the stream records of the provider directory. Numbers are the
  integers (identifiers and millisecond timestamps); an object is the list of its
  properties, each name once.
\<close>

datatype jsval =
    JUndefined
  | JNull
  | JBool bool
  | JNum int
  | JStr string
  | JArr "jsval list"
  | JObj "(string \<times> jsval) list"

text \<open>JavaScript truthiness, as used by \<^verbatim>\<open>!x\<close>, \<^verbatim>\<open>x || y\<close>, \<^verbatim>\<open>x && y\<close> and \<^verbatim>\<open>x ? a : b\<close>.\<close>

fun truthy :: "jsval \<Rightarrow> bool" where
  "truthy JUndefined = False"
| "truthy JNull = False"
| "truthy (JBool b) = b"
| "truthy (JNum n) = (n \<noteq> 0)"
| "truthy (JStr s) = (s \<noteq> [])"
| "truthy (JArr xs) = True"
| "truthy (JObj kvs) = True"

text \<open>\<^verbatim>\<open>a || b\<close>\<close>

definition js_or :: "jsval \<Rightarrow> jsval \<Rightarrow> jsval" where
  "js_or a b = (if truthy a then a else b)"

text \<open>
  A property read \<^verbatim>\<open>v.name\<close> for the data properties the handlers read
  (\<^verbatim>\<open>m3u8\<close>, \<^verbatim>\<open>artist_id\<close>, \<^verbatim>\<open>id\<close>, \<^verbatim>\<open>streamKey\<close>, ...): the property of an object, and
  \<^verbatim>\<open>undefined\<close> on a value that has none. Reading a property of \<^verbatim>\<open>null\<close> or
  \<^verbatim>\<open>undefined\<close> raises a TypeError in JavaScript; every caller below either guards the
  read as the source does or turns it into an error itself.
\<close>

fun js_prop :: "jsval \<Rightarrow> string \<Rightarrow> jsval" where
  "js_prop (JObj kvs) k = (case map_of kvs k of Some v \<Rightarrow> v | None \<Rightarrow> JUndefined)"
| "js_prop v k = JUndefined"

section \<open>The token store\<close>

text \<open>
  \<^verbatim>\<open>tokenStore\<close> is a JavaScript \<^verbatim>\<open>Map\<close> from token to
  \<^verbatim>\<open>{ product_id, artist_id, createdAt }\<close>: entries in insertion order, one per key.
\<close>

record token_rec =
  product_id :: jsval
  artist_id :: jsval
  createdAt :: int

type_synonym token_store = "(string \<times> token_rec) list"

text \<open>\<^verbatim>\<open>tokenStore.get(k)\<close>: \<open>None\<close> is \<^verbatim>\<open>undefined\<close>.\<close>

definition store_get :: "token_store \<Rightarrow> string \<Rightarrow> token_rec option" where
  "store_get st k = map_of st k"

text \<open>\<^verbatim>\<open>tokenStore.set(k, v)\<close>: an existing key keeps its place, a new key goes last.\<close>

fun store_set :: "string \<Rightarrow> token_rec \<Rightarrow> token_store \<Rightarrow> token_store" where
  "store_set k v [] = [(k, v)]"
| "store_set k v ((k', v') # st) =
     (if k' = k then (k, v) # st else (k', v') # store_set k v st)"

text \<open>\<^verbatim>\<open>tokenStore.delete(k)\<close>\<close>

definition store_delete :: "string \<Rightarrow> token_store \<Rightarrow> token_store" where
  "store_delete k st = filter (\<lambda>e. fst e \<noteq> k) st"

text \<open>
  \<^verbatim>\<open>
  function pruneTokens() {
    const now = Date.now();
    for (const [tok, obj] of tokenStore.entries()) {
      if (now - obj.createdAt > SHORT_TTL_MS) tokenStore.delete(tok);
    }
  }
  \<close>
  The loop visits every entry of the map once; deleting the entry being visited does
  not disturb the iteration. \<open>prune_loop\<close> is the loop over the entries still to
  visit, \<open>ttl\<close> is \<^verbatim>\<open>SHORT_TTL_MS\<close> and \<open>now\<close> the value of \<^verbatim>\<open>Date.now()\<close>.
\<close>

fun prune_loop :: "int \<Rightarrow> int \<Rightarrow> (string \<times> token_rec) list \<Rightarrow> token_store \<Rightarrow> token_store" where
  "prune_loop ttl now [] st = st"
| "prune_loop ttl now ((tok, obj) # es) st =
     prune_loop ttl now es
       (if now - createdAt obj > ttl then store_delete tok st else st)"

definition pruneTokens :: "int \<Rightarrow> int \<Rightarrow> token_store \<Rightarrow> token_store" where
  "pruneTokens ttl now st = prune_loop ttl now st st"

text \<open>The invariant of a \<^verbatim>\<open>Map\<close>: one entry per key.\<close>

definition store_ok :: "token_store \<Rightarrow> bool" where
  "store_ok st = distinct (map fst st)"

text \<open>The test of the loop on one entry, and the tokens a sweep over \<open>es\<close> deletes.\<close>

definition expired :: "int \<Rightarrow> int \<Rightarrow> string \<times> token_rec \<Rightarrow> bool" where
  "expired ttl now e = (now - createdAt (snd e) > ttl)"

definition expired_keys :: "int \<Rightarrow> int \<Rightarrow> (string \<times> token_rec) list \<Rightarrow> string set" where
  "expired_keys ttl now es = set (map fst (filter (expired ttl now) es))"

section \<open>Strings\<close>

text \<open>
  \<^verbatim>\<open>String(v)\<close>, the conversion of \<^verbatim>\<open>${v}\<close> in a template literal and the conversion
  of \<^verbatim>\<open>v\<close> to a property key: a string as it is, an array as its elements joined by
  commas (\<^verbatim>\<open>null\<close> and \<^verbatim>\<open>undefined\<close> elements as empty strings), an object as
  \<^verbatim>\<open>[object Object]\<close>. An object with a property of its own named \<^verbatim>\<open>toString\<close> has
  lost the inherited method (no parsed value is a function), and its conversion throws
  a TypeError; so does the conversion of an array that holds one.

  An integer of magnitude below \<open>2 ^ 53\<close> prints as its decimal digits. Beyond that
  range the text is the platform's (digits that round to the number, an exponent from
  \<open>10 ^ 21\<close> on): it is the parameter \<open>nt\<close>.
\<close>

datatype js_error = TypeError

fun dec_nat :: "nat \<Rightarrow> string" where
  "dec_nat n =
     (if n < 10 then [''0123456789'' ! n]
      else dec_nat (n div 10) @ [''0123456789'' ! (n mod 10)])"

declare dec_nat.simps [simp del]

definition decimal :: "int \<Rightarrow> string" where
  "decimal n = (if n < 0 then CHR ''-'' # dec_nat (nat (- n)) else dec_nat (nat n))"

fun join_comma :: "string list \<Rightarrow> string" where
  "join_comma [] = []"
| "join_comma [x] = x"
| "join_comma (x # y # ys) = x @ CHR '','' # join_comma (y # ys)"

text \<open>The results of a run of conversions, or the first error among them.\<close>

fun collect :: "(js_error + 'a) list \<Rightarrow> js_error + 'a list" where
  "collect [] = Inr []"
| "collect (Inl e # rs) = Inl e"
| "collect (Inr t # rs) = (case collect rs of Inl e \<Rightarrow> Inl e | Inr ts \<Rightarrow> Inr (t # ts))"

fun to_String :: "(int \<Rightarrow> string) \<Rightarrow> jsval \<Rightarrow> js_error + string" where
  "to_String nt JUndefined = Inr ''undefined''"
| "to_String nt JNull = Inr ''null''"
| "to_String nt (JBool b) = Inr (if b then ''true'' else ''false'')"
| "to_String nt (JNum n) = Inr (if \<bar>n\<bar> < 2 ^ 53 then decimal n else nt n)"
| "to_String nt (JStr s) = Inr s"
| "to_String nt (JArr xs) =
     (case collect (map (\<lambda>x. if x = JUndefined \<or> x = JNull then Inr [] else to_String nt x) xs) of
        Inl e \<Rightarrow> Inl e
      | Inr ts \<Rightarrow> Inr (join_comma ts))"
| "to_String nt (JObj kvs) =
     (if map_of kvs ''toString'' = None then Inr ''[object Object]'' else Inl TypeError)"

text \<open>\<^verbatim>\<open>s.replace(/-+$/, '')\<close>: the string without its trailing run of dashes.\<close>

definition strip_dashes :: "string \<Rightarrow> string" where
  "strip_dashes s = rev (dropWhile (\<lambda>c. c = CHR ''-'') (rev s))"

text \<open>\<^verbatim>\<open>s.split('/')\<close>: the pieces between the separators, empty pieces included.\<close>

fun split :: "char \<Rightarrow> string \<Rightarrow> string list" where
  "split c [] = [[]]"
| "split c (x # xs) =
     (if x = c then [] # split c xs
      else (case split c xs of [] \<Rightarrow> [[x]] | w # ws \<Rightarrow> (x # w) # ws))"

text \<open>\<^verbatim>\<open>xs.indexOf(x)\<close>: \<open>None\<close> is \<^verbatim>\<open>-1\<close>.\<close>

fun indexOf :: "'a \<Rightarrow> 'a list \<Rightarrow> nat option" where
  "indexOf x [] = None"
| "indexOf x (y # ys) = (if y = x then Some 0 else map_option Suc (indexOf x ys))"

text \<open>
  \<^verbatim>\<open>s.replace(/<[^>]*>/g, '')\<close>: a \<^verbatim>\<open><\<close> with a \<^verbatim>\<open>>\<close> somewhere after it is removed
  together with everything up to the first such \<^verbatim>\<open>>\<close>.
\<close>

function strip_tags :: "string \<Rightarrow> string" where
  "strip_tags [] = []"
| "strip_tags (c # cs) =
     (if c = CHR ''<'' \<and> CHR ''>'' \<in> set cs
      then strip_tags (tl (dropWhile (\<lambda>x. x \<noteq> CHR ''>'') cs))
      else c # strip_tags cs)"
  by pat_completeness auto
termination
proof (relation "measure length")
  show "wf (measure length)" by simp
next
  fix c :: char and cs :: string
  have "length (tl (dropWhile (\<lambda>x. x \<noteq> CHR ''>'') cs)) \<le> length cs"
    using length_dropWhile_le [of "\<lambda>x. x \<noteq> CHR ''>''" cs] by simp
  then show "(tl (dropWhile (\<lambda>x. x \<noteq> CHR ''>'') cs), c # cs) \<in> measure length"
    by simp
next
  fix c :: char and cs :: string
  show "(cs, c # cs) \<in> measure length" by simp
qed

section \<open>Configuration, collaborators and state\<close>

text \<open>
  The configuration read from the environment at start, and \<^verbatim>\<open>skuMap\<close>: the
  properties of the object loaded from \<^verbatim>\<open>sku_map.json\<close> (none when loading fails and
  \<^verbatim>\<open>skuMap\<close> is \<^verbatim>\<open>{}\<close>).
\<close>

record config =
  SHOP_BASE :: string
  WC_API_URL :: string
  LIVEPUSH_API_TOKEN :: string
  SHORT_TTL_MS :: int
  OFFER_TTL_SEC :: int
  skuMap :: "(string \<times> jsval) list"

text \<open>
  \<^verbatim>\<open>skuMap\<close> is a plain object, so the read \<^verbatim>\<open>skuMap[k]\<close> finds a property of its own,
  or else what every object inherits from \<^verbatim>\<open>Object.prototype\<close>: a built-in function
  under each of its method names, the prototype itself under \<^verbatim>\<open>__proto__\<close>. Only for
  any other name is the read \<^verbatim>\<open>undefined\<close>.
\<close>

definition object_prototype_names :: "string list" where
  "object_prototype_names =
     [''constructor'', ''hasOwnProperty'', ''isPrototypeOf'', ''propertyIsEnumerable'',
      ''toLocaleString'', ''toString'', ''valueOf'', ''__proto__'',
      ''__defineGetter__'', ''__defineSetter__'', ''__lookupGetter__'', ''__lookupSetter__'']"

datatype property_read = Own jsval | Inherited string | Missing

definition plain_object_read :: "(string \<times> jsval) list \<Rightarrow> string \<Rightarrow> property_read" where
  "plain_object_read kvs k =
     (case map_of kvs k of
        Some v \<Rightarrow> Own v
      | None \<Rightarrow> if k \<in> set object_prototype_names then Inherited k else Missing)"

text \<open>Truthiness of what was read: a function and the prototype object are truthy.\<close>

fun read_truthy :: "property_read \<Rightarrow> bool" where
  "read_truthy (Own v) = truthy v"
| "read_truthy (Inherited k) = True"
| "read_truthy Missing = False"

text \<open>
  Its conversion to a string: a built-in function prints as
  \<^verbatim>\<open>function name() { [native code] }\<close>, where the name of \<^verbatim>\<open>constructor\<close> is
  \<^verbatim>\<open>Object\<close>, and the prototype as \<^verbatim>\<open>[object Object]\<close>.
\<close>

fun read_String :: "(int \<Rightarrow> string) \<Rightarrow> property_read \<Rightarrow> js_error + string" where
  "read_String nt (Own v) = to_String nt v"
| "read_String nt (Inherited k) =
     Inr (if k = ''__proto__'' then ''[object Object]''
          else ''function '' @ (if k = ''constructor'' then ''Object'' else k)
               @ ''() { [native code] }'')"
| "read_String nt Missing = Inr ''undefined''"

text \<open>
  What a request meets outside the relay. \<open>Rejected\<close>: \<^verbatim>\<open>fetch\<close> or \<^verbatim>\<open>r.json()\<close>
  rejects; \<open>Json v\<close>: the parsed body of the answer.
\<close>

datatype fetched = Rejected | Json jsval

text \<open>
  \<^item> \<open>url_pathname s\<close>: \<^verbatim>\<open>new URL(s).pathname\<close>, \<open>None\<close> when \<^verbatim>\<open>new URL(s)\<close> throws
    (\<open>s\<close> is not a well-formed URL);
  \<^item> \<open>number_text n\<close>: the text of an integer \<open>n\<close> of magnitude \<open>2 ^ 53\<close> or more;
  \<^item> \<open>date_now\<close>: \<^verbatim>\<open>Date.now()\<close>;
  \<^item> \<open>random_token\<close>: \<^verbatim>\<open>crypto.randomBytes(5).toString('hex')\<close>;
  \<^item> \<open>wc_products sku\<close>: the catalog's answer to the product query for \<open>sku\<close>;
  \<^item> \<open>livepush_streams\<close>: the provider directory's answer to \<^verbatim>\<open>GET /streams\<close>;
  \<^item> \<open>qr_toBuffer url\<close>: \<^verbatim>\<open>QRCode.toBuffer(url, ...)\<close>, \<open>None\<close> when it rejects.
\<close>

record world =
  url_pathname :: "string \<Rightarrow> string option"
  number_text :: "int \<Rightarrow> string"
  date_now :: int
  random_token :: string
  wc_products :: "string \<Rightarrow> fetched"
  livepush_streams :: fetched
  qr_toBuffer :: "string \<Rightarrow> string option"

text \<open>\<^verbatim>\<open>let nowPlaying = { artist_id: null, artist_name: null, ts: 0 }\<close>\<close>

record now_playing =
  np_artist_id :: jsval
  np_artist_name :: jsval
  np_ts :: int

record state =
  nowPlaying :: now_playing
  tokenStore :: token_store

definition initial_state :: state where
  "initial_state =
     \<lparr>nowPlaying = \<lparr>np_artist_id = JNull, np_artist_name = JNull, np_ts = 0\<rparr>,
      tokenStore = []\<rparr>"

text \<open>
  A request: its parsed JSON body (\<^verbatim>\<open>undefined\<close> when there is none), the \<^verbatim>\<open>:token\<close>
  parameter of its route, \<^verbatim>\<open>req.protocol\<close> and the text of \<^verbatim>\<open>req.get('host')\<close>.
\<close>

record request =
  req_body :: jsval
  req_token :: string
  req_protocol :: string
  req_host :: string

section \<open>Responses\<close>

text \<open>\<^verbatim>\<open>out = { appId, streamKey, streamId, raw: { streamsCount?, match?, error? } }\<close>\<close>

record raw_info =
  streamsCount :: "nat option"
  matched :: "jsval option"
  lookup_error :: "string option"

record resolve_out =
  appId :: jsval
  streamKey :: jsval
  streamId :: jsval
  raw :: raw_info

text \<open>
  The body of \<^verbatim>\<open>GET /offer/active\<close>:
  \<^verbatim>\<open>{ overlay: { visible, ttlSec }, artist?: { id, name }, product?: { ... } }\<close>.
  The \<^verbatim>\<open>price\<close> of the product (a parsed floating-point amount and its locale
  formatting) is left out of the snapshot.
\<close>

record artist_snapshot =
  artist_snapshot_id :: jsval
  artist_snapshot_name :: jsval

record product_snapshot =
  snapshot_id :: jsval
  snapshot_sku :: jsval
  snapshot_name :: jsval
  snapshot_description :: string
  snapshot_image :: jsval
  buyUrl :: string
  shortUrl :: string
  qrPng :: string

record offer =
  visible :: bool
  ttlSec :: int
  artist :: "artist_snapshot option"
  product :: "product_snapshot option"

datatype payload =
    ErrorJson string
  | ParsedErrorJson string resolve_out
  | ResolveJson resolve_out
  | NowPlayingJson now_playing
  | OfferJson offer
  | Text string
  | Html string
  | Png string
  | ErrorPage

text \<open>
  What a handler does with a request: it sends a response with a status, or, as an
  \<^verbatim>\<open>async\<close> handler whose exception nothing catches, it sends nothing (\<open>Unhandled\<close>).
  An exception thrown by a handler that is not \<^verbatim>\<open>async\<close> is caught by the router,
  whose default error handler answers 500 with a page of its own (\<open>ErrorPage\<close>).
\<close>

datatype outcome = Response nat payload | Unhandled

fun status :: "outcome \<Rightarrow> nat option" where
  "status (Response n b) = Some n"
| "status Unhandled = None"

section \<open>POST /resolve/stream\<close>

text \<open>
  The body of the \<^verbatim>\<open>try\<close> block, once \<^verbatim>\<open>new URL(m3u8)\<close> has succeeded:
  \<^verbatim>\<open>
  const parts = u.pathname.split('/').filter(Boolean);
  const idx = parts.indexOf('live_cdn');
  if (idx >= 0 && parts.length >= idx + 3) {
    out.appId = parts[idx + 1];
    let key = parts[idx + 2];
    key = key.replace(/-+$/,'');
    out.streamKey = key;
  }
  \<close>
\<close>

definition segments :: "string \<Rightarrow> string list" where
  "segments pathname = filter (\<lambda>s. s \<noteq> []) (split CHR ''/'' pathname)"

definition empty_out :: resolve_out where
  "empty_out =
     \<lparr>appId = JNull, streamKey = JNull, streamId = JNull,
      raw = \<lparr>streamsCount = None, matched = None, lookup_error = None\<rparr>\<rparr>"

definition parse_path :: "string \<Rightarrow> resolve_out" where
  "parse_path pathname =
     (let parts = segments pathname in
      case indexOf ''live_cdn'' parts of
        None \<Rightarrow> empty_out
      | Some idx \<Rightarrow>
          if length parts \<ge> idx + 3
          then empty_out\<lparr>appId := JStr (parts ! (idx + 1)),
                         streamKey := JStr (strip_dashes (parts ! (idx + 2)))\<rparr>
          else empty_out)"

text \<open>
  The callback of \<^verbatim>\<open>arr.find\<close>:
  \<^verbatim>\<open>
  s => { const k = (s.streamKey || '').replace(/-+$/,''); return k === out.streamKey; }
  \<close>
  It throws a TypeError when \<^verbatim>\<open>s\<close> is \<^verbatim>\<open>null\<close> or \<^verbatim>\<open>undefined\<close>, and when
  \<^verbatim>\<open>s.streamKey\<close> is truthy and not a string (it has no \<^verbatim>\<open>replace\<close> method).
\<close>

definition stream_matches :: "jsval \<Rightarrow> jsval \<Rightarrow> js_error + bool" where
  "stream_matches key s =
     (if s = JUndefined \<or> s = JNull then Inl TypeError
      else case js_or (js_prop s ''streamKey'') (JStr []) of
             JStr k \<Rightarrow> Inr (JStr (strip_dashes k) = key)
           | _ \<Rightarrow> Inl TypeError)"

text \<open>\<^verbatim>\<open>arr.find(callback)\<close>: the first element the callback accepts, in list order.\<close>

fun find_stream :: "jsval \<Rightarrow> jsval list \<Rightarrow> js_error + jsval option" where
  "find_stream key [] = Inr None"
| "find_stream key (s # ss) =
     (case stream_matches key s of
        Inl e \<Rightarrow> Inl e
      | Inr True \<Rightarrow> Inr (Some s)
      | Inr False \<Rightarrow> find_stream key ss)"

text \<open>
  The lookup in the provider directory, run when \<^verbatim>\<open>LIVEPUSH_API_TOKEN\<close> is set:
  \<^verbatim>\<open>
  try {
    const r = await fetch(...); const arr = await r.json();
    out.raw.streamsCount = Array.isArray(arr) ? arr.length : 0;
    if (Array.isArray(arr)) {
      const found = arr.find(...);
      if (found) { out.streamId = found.id || null; out.raw.match = found; }
    }
  } catch(e) { out.raw.error = 'livepush_lookup_failed'; }
  \<close>
\<close>

definition livepush_lookup :: "fetched \<Rightarrow> resolve_out \<Rightarrow> resolve_out" where
  "livepush_lookup answer out =
     (case answer of
        Rejected \<Rightarrow> out\<lparr>raw := (raw out)\<lparr>lookup_error := Some ''livepush_lookup_failed''\<rparr>\<rparr>
      | Json (JArr arr) \<Rightarrow>
          (let out1 = out\<lparr>raw := (raw out)\<lparr>streamsCount := Some (length arr)\<rparr>\<rparr> in
           case find_stream (streamKey out) arr of
             Inl e \<Rightarrow> out1\<lparr>raw := (raw out1)\<lparr>lookup_error := Some ''livepush_lookup_failed''\<rparr>\<rparr>
           | Inr None \<Rightarrow> out1
           | Inr (Some found) \<Rightarrow>
               if truthy found
               then out1\<lparr>streamId := js_or (js_prop found ''id'') JNull,
                         raw := (raw out1)\<lparr>matched := Some found\<rparr>\<rparr>
               else out1)
      | Json v \<Rightarrow> out\<lparr>raw := (raw out)\<lparr>streamsCount := Some 0\<rparr>\<rparr>)"

text \<open>
  \<^verbatim>\<open>
  const m3u8 = (req.body && req.body.m3u8) ? String(req.body.m3u8) : '';
  if (!m3u8) return res.status(400).json({ error: 'm3u8 required' });
  \<close>
  The conversion stands before the \<^verbatim>\<open>try\<close> of the handler: when it throws, nothing
  catches the exception.
\<close>

definition m3u8_of :: "(int \<Rightarrow> string) \<Rightarrow> request \<Rightarrow> js_error + string" where
  "m3u8_of nt req =
     (if truthy (req_body req) \<and> truthy (js_prop (req_body req) ''m3u8'')
      then to_String nt (js_prop (req_body req) ''m3u8'') else Inr [])"

definition resolve_stream :: "config \<Rightarrow> world \<Rightarrow> request \<Rightarrow> outcome" where
  "resolve_stream cfg w req =
     (case m3u8_of (number_text w) req of
        Inl e \<Rightarrow> Unhandled
      | Inr m3u8 \<Rightarrow>
          if m3u8 = [] then Response 400 (ErrorJson ''m3u8 required'')
          else case url_pathname w m3u8 of
            None \<Rightarrow> Response 400 (ErrorJson ''invalid m3u8 url'')
          | Some pathname \<Rightarrow>
              (let out = parse_path pathname in
               if \<not> truthy (appId out) \<or> \<not> truthy (streamKey out)
               then Response 422
                      (ParsedErrorJson ''could not parse appId/streamKey from m3u8'' out)
               else if LIVEPUSH_API_TOKEN cfg \<noteq> []
               then Response 200 (ResolveJson (livepush_lookup (livepush_streams w) out))
               else Response 200 (ResolveJson out)))"

section \<open>POST /nowplaying\<close>

text \<open>
  \<^verbatim>\<open>
  const body = req.body || {};
  if (!body.artist_id) return res.status(400).json({ error: 'artist_id required' });
  nowPlaying = { artist_id: body.artist_id,
                 artist_name: body.artist_name || body.artist_id, ts: Date.now() };
  return res.json({ ok: true, nowPlaying });
  \<close>
\<close>

definition nowplaying :: "world \<Rightarrow> request \<Rightarrow> state \<Rightarrow> state \<times> outcome" where
  "nowplaying w req s =
     (let body = js_or (req_body req) (JObj []) in
      if \<not> truthy (js_prop body ''artist_id'')
      then (s, Response 400 (ErrorJson ''artist_id required''))
      else
        (let np = \<lparr>np_artist_id = js_prop body ''artist_id'',
                   np_artist_name = js_or (js_prop body ''artist_name'') (js_prop body ''artist_id''),
                   np_ts = date_now w\<rparr>
         in (s\<lparr>nowPlaying := np\<rparr>, Response 200 (NowPlayingJson np))))"

section \<open>GET /offer/active\<close>

definition no_offer :: "config \<Rightarrow> outcome" where
  "no_offer cfg =
     Response 200
       (OfferJson \<lparr>visible = False, ttlSec = OFFER_TTL_SEC cfg, artist = None, product = None\<rparr>)"

text \<open>\<^verbatim>\<open>if (Array.isArray(arr) && arr.length > 0) { prod = arr[0]; }\<close>\<close>

fun first_product :: "jsval \<Rightarrow> jsval" where
  "first_product (JArr (p # ps)) = p"
| "first_product v = JUndefined"

text \<open>\<^verbatim>\<open>v[0]\<close> on a value that is not \<^verbatim>\<open>null\<close> or \<^verbatim>\<open>undefined\<close>.\<close>

fun index0 :: "jsval \<Rightarrow> jsval" where
  "index0 (JArr (x # xs)) = x"
| "index0 (JStr (c # cs)) = JStr [c]"
| "index0 (JObj kvs) = js_prop (JObj kvs) ''0''"
| "index0 v = JUndefined"

text \<open>
  \<^verbatim>\<open>(prod.images && prod.images[0] && prod.images[0].src) ? prod.images[0].src : null\<close>
\<close>

definition product_image :: "jsval \<Rightarrow> jsval" where
  "product_image prd =
     (let images = js_prop prd ''images'' in
      if truthy images \<and> truthy (index0 images) \<and> truthy (js_prop (index0 images) ''src'')
      then js_prop (index0 images) ''src'' else JNull)"

text \<open>
  \<^verbatim>\<open>(prod.short_description || '').replace(/<[^>]*>/g, '').slice(0, 160)\<close>: a truthy
  description that is not a string has no \<^verbatim>\<open>replace\<close> method, and the call throws.
\<close>

definition product_description :: "jsval \<Rightarrow> js_error + string" where
  "product_description prd =
     (case js_or (js_prop prd ''short_description'') (JStr []) of
        JStr d \<Rightarrow> Inr (take 160 (strip_tags d))
      | _ \<Rightarrow> Inl TypeError)"

text \<open>
  What the response takes from the product, after the token is stored:
  \<^verbatim>\<open>
  const amount = parseFloat(prod.price || prod.regular_price || '0') || 0;
  const buyUrl = `${SHOP_BASE}/?add-to-cart=${prod.id}&quantity=1`;
  \<close>
  and the description. \<^verbatim>\<open>parseFloat\<close> converts its argument to a string first, and
  so does the template; either conversion can throw, like the \<^verbatim>\<open>replace\<close> of the
  description. The amount itself is not part of the snapshot.
\<close>

definition product_snapshot_of ::
    "config \<Rightarrow> world \<Rightarrow> request \<Rightarrow> string \<Rightarrow> jsval \<Rightarrow> js_error + product_snapshot" where
  "product_snapshot_of cfg w req token prd =
     (case to_String (number_text w)
             (js_or (js_prop prd ''price'') (js_or (js_prop prd ''regular_price'') (JStr ''0''))) of
        Inl e \<Rightarrow> Inl e
      | Inr price_text \<Rightarrow>
         (case to_String (number_text w) (js_prop prd ''id'') of
            Inl e \<Rightarrow> Inl e
          | Inr id_text \<Rightarrow>
             (case product_description prd of
                Inl e \<Rightarrow> Inl e
              | Inr description \<Rightarrow>
                 Inr \<lparr>snapshot_id = js_prop prd ''id'',
                      snapshot_sku = js_prop prd ''sku'',
                      snapshot_name = js_prop prd ''name'',
                      snapshot_description = description,
                      snapshot_image = product_image prd,
                      buyUrl = SHOP_BASE cfg @ ''/?add-to-cart='' @ id_text @ ''&quantity=1'',
                      shortUrl = req_protocol req @ ''://'' @ req_host req @ ''/b/'' @ token,
                      qrPng = req_protocol req @ ''://'' @ req_host req
                                @ ''/qr/'' @ token @ ''.png''\<rparr>)))"

text \<open>
  The handler. The read \<^verbatim>\<open>skuMap[artistId]\<close> converts the artist id to a property key;
  \<^verbatim>\<open>new URL(WC_API_URL + '/products')\<close> and \<^verbatim>\<open>url.searchParams.set('sku', sku)\<close>, which
  converts the SKU to a string, follow. All three stand before the \<^verbatim>\<open>try\<close>, and so
  does everything after the product test: an exception there is not caught. The
  token is stored before the response is built.
\<close>

definition offer_active :: "config \<Rightarrow> world \<Rightarrow> request \<Rightarrow> state \<Rightarrow> state \<times> outcome" where
  "offer_active cfg w req s =
     (let artistId = np_artist_id (nowPlaying s) in
      if \<not> truthy artistId then (s, no_offer cfg)
      else case to_String (number_text w) artistId of
        Inl e \<Rightarrow> (s, Unhandled)
      | Inr key \<Rightarrow>
       (let sku = plain_object_read (skuMap cfg) key in
        if \<not> read_truthy sku then (s, no_offer cfg)
        else case url_pathname w (WC_API_URL cfg @ ''/products'') of
          None \<Rightarrow> (s, Unhandled)
        | Some u \<Rightarrow>
           (case read_String (number_text w) sku of
              Inl e \<Rightarrow> (s, Unhandled)
            | Inr sku_text \<Rightarrow>
               (case wc_products w sku_text of
                  Rejected \<Rightarrow> (s, no_offer cfg)
                | Json arr \<Rightarrow>
                   (let prd = first_product arr in
                    if \<not> truthy prd \<or> \<not> truthy (js_prop prd ''id'')
                       \<or> js_prop prd ''type'' = JStr ''variable''
                       \<or> js_prop prd ''stock_status'' \<noteq> JStr ''instock''
                    then (s, no_offer cfg)
                    else
                     (let token = random_token w;
                          s' = s\<lparr>tokenStore :=
                                  store_set token
                                    \<lparr>product_id = js_prop prd ''id'', artist_id = artistId,
                                     createdAt = date_now w\<rparr>
                                    (tokenStore s)\<rparr>
                      in case product_snapshot_of cfg w req token prd of
                           Inl e \<Rightarrow> (s', Unhandled)
                         | Inr snapshot \<Rightarrow>
                            (s', Response 200 (OfferJson
                               \<lparr>visible = True, ttlSec = OFFER_TTL_SEC cfg,
                                artist = Some
                                  \<lparr>artist_snapshot_id = artistId,
                                   artist_snapshot_name =
                                     js_or (np_artist_name (nowPlaying s)) artistId\<rparr>,
                                product = Some snapshot\<rparr>))))))))"

section \<open>GET /b/:token and GET /qr/:token.png\<close>

text \<open>
  \<^verbatim>\<open>const final = `${SHOP_BASE}/?add-to-cart=${rec.product_id}&quantity=1`;\<close>
  The template converts the product id to a string.
\<close>

definition final_url :: "config \<Rightarrow> (int \<Rightarrow> string) \<Rightarrow> token_rec \<Rightarrow> js_error + string" where
  "final_url cfg nt rec =
     (case to_String nt (product_id rec) of
        Inl e \<Rightarrow> Inl e
      | Inr id_text \<Rightarrow> Inr (SHOP_BASE cfg @ ''/?add-to-cart='' @ id_text @ ''&quantity=1''))"

text \<open>
  The page sent by \<^verbatim>\<open>/b/:token\<close>: a meta refresh to \<^verbatim>\<open>final\<close>, then a script that
  goes on to \<^verbatim>\<open>${SHOP_BASE}/checkout\<close>. The characters 0x22 and 0x27 are the double and
  the single quote.
\<close>

definition redirect_page :: "config \<Rightarrow> string \<Rightarrow> string" where
  "redirect_page cfg final =
     ''<!doctype html><meta http-equiv='' @ [CHR 0x22] @ ''refresh'' @ [CHR 0x22]
     @ '' content='' @ [CHR 0x22] @ ''0;url='' @ final @ [CHR 0x22]
     @ ''><script>setTimeout(function(){location.replace('' @ [CHR 0x27]
     @ SHOP_BASE cfg @ ''/checkout'' @ [CHR 0x27] @ '')},500)</script>''"

text \<open>
  \<^verbatim>\<open>
  const rec = tokenStore.get(req.params.token);
  if (!rec) return res.status(404).send('Expired');
  \<close>
  Neither handler writes to the store or reads the clock. The handler of
  \<^verbatim>\<open>/b/:token\<close> is not \<^verbatim>\<open>async\<close>: when the template throws, the router answers 500.
\<close>

definition get_b :: "config \<Rightarrow> world \<Rightarrow> request \<Rightarrow> state \<Rightarrow> state \<times> outcome" where
  "get_b cfg w req s =
     (case store_get (tokenStore s) (req_token req) of
        None \<Rightarrow> (s, Response 404 (Text ''Expired''))
      | Some rec \<Rightarrow>
          (case final_url cfg (number_text w) rec of
             Inl e \<Rightarrow> (s, Response 500 ErrorPage)
           | Inr final \<Rightarrow> (s, Response 200 (Html (redirect_page cfg final)))))"

definition get_qr :: "world \<Rightarrow> request \<Rightarrow> state \<Rightarrow> state \<times> outcome" where
  "get_qr w req s =
     (case store_get (tokenStore s) (req_token req) of
        None \<Rightarrow> (s, Response 404 (Text ''Expired''))
      | Some rec \<Rightarrow>
          (let shortUrl = req_protocol req @ ''://'' @ req_host req @ ''/b/'' @ req_token req in
           case qr_toBuffer w shortUrl of
             Some png \<Rightarrow> (s, Response 200 (Png png))
           | None \<Rightarrow> (s, Response 500 (Text ''QR error''))))"

text \<open>The timer: \<^verbatim>\<open>setInterval(pruneTokens, 60 * 1000)\<close> runs the sweep on the store.\<close>

definition sweep :: "config \<Rightarrow> int \<Rightarrow> state \<Rightarrow> state" where
  "sweep cfg now s = s\<lparr>tokenStore := pruneTokens (SHORT_TTL_MS cfg) now (tokenStore s)\<rparr>"

section \<open>Notions used to state the properties\<close>

text \<open>The segments that follow the first \<open>live_cdn\<close> of a list of path segments.\<close>

definition after_marker :: "string list \<Rightarrow> string list" where
  "after_marker parts = tl (dropWhile (\<lambda>s. s \<noteq> ''live_cdn'') parts)"

text \<open>
  A record of the provider directory, \<^verbatim>\<open>{streamKey, id, ...}\<close>: an object whose
  \<^verbatim>\<open>streamKey\<close> is a string, or is absent or otherwise falsy; and the key of such a
  record, the empty string when it has none.
\<close>

fun is_stream_record :: "jsval \<Rightarrow> bool" where
  "is_stream_record (JObj kvs) =
     (case js_prop (JObj kvs) ''streamKey'' of JStr k \<Rightarrow> True | v \<Rightarrow> \<not> truthy v)"
| "is_stream_record v = False"

definition record_key :: "jsval \<Rightarrow> string" where
  "record_key s = (case js_prop s ''streamKey'' of JStr k \<Rightarrow> k | _ \<Rightarrow> [])"

section \<open>Example data\<close>

text \<open>
  The SKU map of the README, \<^verbatim>\<open>{ "colleenanthony": "0002" }\<close>, the default configuration
  with a provider token, and a catalog holding one simple product in stock, number 42,
  under that SKU.
\<close>

definition example_skuMap :: "(string \<times> jsval) list" where
  "example_skuMap = [(''colleenanthony'', JStr ''0002'')]"

definition example_config :: config where
  "example_config =
     \<lparr>SHOP_BASE = ''https://subamerica.net/shop'',
      WC_API_URL = ''https://subamerica.net/wp-json/wc/v3'',
      LIVEPUSH_API_TOKEN = ''token'',
      SHORT_TTL_MS = 1800000,
      OFFER_TTL_SEC = 25,
      skuMap = example_skuMap\<rparr>"

definition example_catalog :: "string \<Rightarrow> fetched" where
  "example_catalog sku =
     (if sku = ''0002''
      then Json (JArr [JObj [(''id'', JNum 42), (''sku'', JStr ''0002''), (''type'', JStr ''simple''),
                             (''stock_status'', JStr ''instock''), (''price'', JStr ''19.99'')]])
      else Json (JArr []))"

text \<open>A catalog that gives the same answer to every query.\<close>

definition constant_catalog :: "fetched \<Rightarrow> string \<Rightarrow> fetched" where
  "constant_catalog answer sku = answer"

definition example_qr :: "string \<Rightarrow> string option" where
  "example_qr url = Some (''PNG '' @ url)"

text \<open>
  The URLs the example parser knows, with their paths; any other text is not a URL.
  The provider directory is the one of the matcher example.
\<close>

definition example_world :: world where
  "example_world =
     \<lparr>url_pathname = map_of
        [(''https://cdn.example/live_cdn/app1/key1--/index.m3u8'', ''/live_cdn/app1/key1--/index.m3u8''),
         (''https://cdn.example/live_cdn/app1/--/index.m3u8'', ''/live_cdn/app1/--/index.m3u8''),
         (''https://cdn.example/vod/app1/key1/index.m3u8'', ''/vod/app1/key1/index.m3u8''),
         (''https://cdn.example/live_cdn/app1'', ''/live_cdn/app1''),
         (''https://subamerica.net/wp-json/wc/v3/products'', ''/wp-json/wc/v3/products'')],
      number_text = decimal,
      date_now = 1000,
      random_token = ''a1b2c3d4e5'',
      wc_products = example_catalog,
      livepush_streams = Json (JArr [JObj [(''streamKey'', JStr ''abc--''), (''id'', JNum 1)],
                                     JObj [(''streamKey'', JStr ''abc''), (''id'', JNum 2)]]),
      qr_toBuffer = example_qr\<rparr>"

definition example_request :: "jsval \<Rightarrow> request" where
  "example_request b =
     \<lparr>req_body = b, req_token = ''a1b2c3d4e5'', req_protocol = ''https'',
      req_host = ''relay.example''\<rparr>"

text \<open>
  The state after \<^verbatim>\<open>POST /nowplaying {artist_id: "colleenanthony"}\<close> at 20000 ms and a
  \<^verbatim>\<open>GET /offer/active\<close> at 30000 ms that mints the token \<^verbatim>\<open>a1b2c3d4e5\<close>.
\<close>

definition example_state :: state where
  "example_state =
     \<lparr>nowPlaying = \<lparr>np_artist_id = JStr ''colleenanthony'',
                     np_artist_name = JStr ''colleenanthony'', np_ts = 20000\<rparr>,
      tokenStore = [(''a1b2c3d4e5'',
                     \<lparr>product_id = JNum 42, artist_id = JStr ''colleenanthony'',
                      createdAt = 30000\<rparr>)]\<rparr>"

section \<open>Properties of the sweep\<close>

lemma expired_keys_Nil: "expired_keys ttl now [] = {}"
  by (simp add: expired_keys_def)

lemma expired_keys_Cons:
  "expired_keys ttl now ((tok, obj) # es) =
     (if now - createdAt obj > ttl then insert tok (expired_keys ttl now es)
      else expired_keys ttl now es)"
  by (simp add: expired_keys_def expired_def)

lemma prune_loop_filter:
  "prune_loop ttl now es st = filter (\<lambda>e. fst e \<notin> expired_keys ttl now es) st"
proof (induction es arbitrary: st)
  case Nil
  show ?case by (simp add: expired_keys_Nil)
next
  case (Cons e es)
  obtain tok obj where e: "e = (tok, obj)" by (cases e)
  have "filter (\<lambda>x. fst x \<notin> expired_keys ttl now es) (filter (\<lambda>x. fst x \<noteq> tok) st) =
        filter (\<lambda>x. fst x \<notin> insert tok (expired_keys ttl now es)) st"
    by (auto intro!: filter_cong)
  then show ?case
    by (simp add: e Cons.IH expired_keys_Cons store_delete_def)
qed

lemma pruneTokens_filter_keys:
  "pruneTokens ttl now st =
     filter (\<lambda>e. fst e \<notin> expired_keys ttl now st) st"
  by (simp add: pruneTokens_def prune_loop_filter)

lemma pruneTokens_filter:
  assumes "store_ok st"
  shows "pruneTokens ttl now st = filter (\<lambda>e. \<not> expired ttl now e) st"
proof -
  have "fst e \<in> expired_keys ttl now st \<longleftrightarrow> expired ttl now e"
    if "e \<in> set st" for e
  proof
    assume "fst e \<in> expired_keys ttl now st"
    then obtain x where x: "x \<in> set st" "expired ttl now x" "fst x = fst e"
      by (auto simp: expired_keys_def)
    from assms x(1) x(3) that have "x = e"
      unfolding store_ok_def by (metis eq_key_imp_eq_value prod.collapse)
    with x(2) show "expired ttl now e" by simp
  next
    assume "expired ttl now e"
    with that show "fst e \<in> expired_keys ttl now st"
      by (auto simp: expired_keys_def)
  qed
  then show ?thesis
    unfolding pruneTokens_filter_keys by (auto intro!: filter_cong)
qed

lemma pruneTokens_no_expired:
  "e \<in> set (pruneTokens ttl now st) \<Longrightarrow> \<not> expired ttl now e"
  unfolding pruneTokens_filter_keys by (auto simp: expired_keys_def)

lemma store_ok_filter: "store_ok st \<Longrightarrow> store_ok (filter P st)"
  unfolding store_ok_def by (simp add: distinct_map_filter)

lemma store_get_filter:
  "store_ok st \<Longrightarrow>
   store_get (filter P st) k =
     (case store_get st k of None \<Rightarrow> None | Some v \<Rightarrow> if P (k, v) then Some v else None)"
  unfolding store_ok_def store_get_def
proof (induction st)
  case Nil
  show ?case by simp
next
  case (Cons e st)
  obtain k' v' where e: "e = (k', v')" by (cases e)
  from Cons.prems have d: "distinct (map fst st)" and nk: "k' \<notin> fst ` set st"
    by (auto simp: e)
  from nk have none: "map_of st k' = None"
    by (simp add: map_of_eq_None_iff)
  show ?case
    using Cons.IH [OF d] none by (auto simp: e split: option.splits)
qed

lemma expired_keys_pruneTokens: "expired_keys ttl now (pruneTokens ttl now st) = {}"
proof -
  have "filter (expired ttl now) (pruneTokens ttl now st) = []"
    by (auto simp: filter_empty_conv dest: pruneTokens_no_expired)
  then show ?thesis by (simp add: expired_keys_def)
qed

lemma store_ok_pruneTokens: "store_ok st \<Longrightarrow> store_ok (pruneTokens ttl now st)"
  by (simp add: pruneTokens_filter_keys store_ok_filter)

lemma store_get_pruneTokens:
  assumes "store_ok st"
  shows "store_get (pruneTokens ttl now st) tok =
           (case store_get st tok of
              None \<Rightarrow> None
            | Some obj \<Rightarrow> if now - createdAt obj > ttl then None else Some obj)"
  using assms
  by (simp add: pruneTokens_filter store_get_filter expired_def split: option.splits)

text \<open>
  C6. Claimed: one sweep removes exactly the entries whose age \<open>now - createdAt\<close> is
  greater than or equal to the TTL. The comparison of \<^verbatim>\<open>pruneTokens\<close> is strict: an
  entry whose age equals the TTL stays. Here a token created at time 0 is swept at
  time 1800000 with a TTL of 1800000 ms, and is still in the store.
\<close>

theorem pruneTokens_age_eq_ttl_counterexample:
  "(1800000::int) - createdAt \<lparr>product_id = JNum 42, artist_id = JStr ''colleenanthony'',
                               createdAt = 0\<rparr> \<ge> 1800000
   \<and> store_get
        (pruneTokens 1800000 1800000
           [(''a1b2c3d4e5'',
             \<lparr>product_id = JNum 42, artist_id = JStr ''colleenanthony'', createdAt = 0\<rparr>)])
        ''a1b2c3d4e5''
      = Some \<lparr>product_id = JNum 42, artist_id = JStr ''colleenanthony'', createdAt = 0\<rparr>"
  by (simp add: pruneTokens_def store_get_def)

text \<open>
  C6, as the code has it: for every store (one entry per token) and every current
  time, one sweep removes exactly the entries whose age is strictly greater than the
  TTL; every entry of age at most the TTL stays, unmodified and in its place. Both as
  the list of entries and as what a lookup finds.
\<close>

theorem pruneTokens_removes_exactly:
  assumes "store_ok st"
  shows "pruneTokens ttl now st = filter (\<lambda>e. \<not> now - createdAt (snd e) > ttl) st
         \<and> store_get (pruneTokens ttl now st) tok =
             (case store_get st tok of
                None \<Rightarrow> None
              | Some obj \<Rightarrow> if now - createdAt obj > ttl then None else Some obj)"
proof
  have "filter (\<lambda>e. \<not> expired ttl now e) st = filter (\<lambda>e. \<not> now - createdAt (snd e) > ttl) st"
    by (simp add: expired_def)
  with assms show "pruneTokens ttl now st = filter (\<lambda>e. \<not> now - createdAt (snd e) > ttl) st"
    by (simp add: pruneTokens_filter)
next
  from assms show "store_get (pruneTokens ttl now st) tok =
             (case store_get st tok of
                None \<Rightarrow> None
              | Some obj \<Rightarrow> if now - createdAt obj > ttl then None else Some obj)"
    by (rule store_get_pruneTokens)
qed

text \<open>
  Three tokens created at 0, 1 and 500000 ms, swept at 1800001 ms with a TTL of
  1800000 ms: only the first has an age above the TTL and goes.
\<close>

theorem pruneTokens_removes_exactly_witness:
  "store_ok
     [(''00000000aa'', \<lparr>product_id = JNum 42, artist_id = JStr ''a'', createdAt = 0\<rparr>),
      (''00000000bb'', \<lparr>product_id = JNum 43, artist_id = JStr ''b'', createdAt = 1\<rparr>),
      (''00000000cc'', \<lparr>product_id = JNum 44, artist_id = JStr ''c'', createdAt = 500000\<rparr>)]
   \<and> pruneTokens 1800000 1800001
       [(''00000000aa'', \<lparr>product_id = JNum 42, artist_id = JStr ''a'', createdAt = 0\<rparr>),
        (''00000000bb'', \<lparr>product_id = JNum 43, artist_id = JStr ''b'', createdAt = 1\<rparr>),
        (''00000000cc'', \<lparr>product_id = JNum 44, artist_id = JStr ''c'', createdAt = 500000\<rparr>)]
     = [(''00000000bb'', \<lparr>product_id = JNum 43, artist_id = JStr ''b'', createdAt = 1\<rparr>),
        (''00000000cc'', \<lparr>product_id = JNum 44, artist_id = JStr ''c'', createdAt = 500000\<rparr>)]
   \<and> store_get
       (pruneTokens 1800000 1800001
         [(''00000000aa'', \<lparr>product_id = JNum 42, artist_id = JStr ''a'', createdAt = 0\<rparr>),
          (''00000000bb'', \<lparr>product_id = JNum 43, artist_id = JStr ''b'', createdAt = 1\<rparr>),
          (''00000000cc'', \<lparr>product_id = JNum 44, artist_id = JStr ''c'', createdAt = 500000\<rparr>)])
       ''00000000bb''
     = Some \<lparr>product_id = JNum 43, artist_id = JStr ''b'', createdAt = 1\<rparr>"
proof -
  have ok: "store_ok
     [(''00000000aa'', \<lparr>product_id = JNum 42, artist_id = JStr ''a'', createdAt = 0\<rparr>),
      (''00000000bb'', \<lparr>product_id = JNum 43, artist_id = JStr ''b'', createdAt = 1\<rparr>),
      (''00000000cc'', \<lparr>product_id = JNum 44, artist_id = JStr ''c'', createdAt = 500000\<rparr>)]"
    by (simp add: store_ok_def)
  show ?thesis
    using ok pruneTokens_removes_exactly [OF ok, of 1800000 1800001 "''00000000bb''"]
    by (simp add: store_get_def)
qed

text \<open>
  C8. For every store and every fixed current time, a second sweep with no write in
  between changes nothing: the store after the second sweep is the store after the
  first.
\<close>

theorem pruneTokens_idempotent:
  "pruneTokens ttl now (pruneTokens ttl now st) = pruneTokens ttl now st"
proof -
  have "pruneTokens ttl now (pruneTokens ttl now st) =
        filter (\<lambda>e. fst e \<notin> expired_keys ttl now (pruneTokens ttl now st))
          (pruneTokens ttl now st)"
    by (rule pruneTokens_filter_keys)
  also have "\<dots> = pruneTokens ttl now st"
    by (simp add: expired_keys_pruneTokens)
  finally show ?thesis .
qed

theorem pruneTokens_idempotent_witness:
  "pruneTokens 1800000 1800001
     (pruneTokens 1800000 1800001
        [(''00000000aa'', \<lparr>product_id = JNum 42, artist_id = JStr ''a'', createdAt = 0\<rparr>),
         (''00000000bb'', \<lparr>product_id = JNum 43, artist_id = JStr ''b'', createdAt = 1\<rparr>)])
   = [(''00000000bb'', \<lparr>product_id = JNum 43, artist_id = JStr ''b'', createdAt = 1\<rparr>)]"
  using pruneTokens_idempotent [of 1800000 1800001
     "[(''00000000aa'', \<lparr>product_id = JNum 42, artist_id = JStr ''a'', createdAt = 0\<rparr>),
       (''00000000bb'', \<lparr>product_id = JNum 43, artist_id = JStr ''b'', createdAt = 1\<rparr>)]"]
  by (simp add: pruneTokens_def store_delete_def)

section \<open>Properties of the stream resolver\<close>

lemma indexOf_None_iff: "indexOf x xs = None \<longleftrightarrow> x \<notin> set xs"
  by (induction xs) auto

lemma indexOf_append_marker:
  "x \<notin> set pre \<Longrightarrow> indexOf x (pre @ x # post) = Some (length pre)"
  by (induction pre) auto

lemma indexOf_takeWhile:
  "x \<in> set xs \<Longrightarrow> indexOf x xs = Some (length (takeWhile (\<lambda>y. y \<noteq> x) xs))"
  by (induction xs) auto

lemma indexOf_Some_decomp:
  "indexOf x xs = Some i \<Longrightarrow>
   xs = take i xs @ x # drop (Suc i) xs \<and> x \<notin> set (take i xs) \<and> i < length xs"
proof (induction xs arbitrary: i)
  case Nil
  then show ?case by simp
next
  case (Cons y ys)
  show ?case
  proof (cases "y = x")
    case True
    with Cons.prems show ?thesis by simp
  next
    case False
    with Cons.prems obtain j where j: "indexOf x ys = Some j" "i = Suc j"
      by auto
    from Cons.IH [OF j(1)] False j(2) show ?thesis by simp
  qed
qed

lemma strip_dashes_append_dashes:
  "strip_dashes (k @ replicate n CHR ''-'') = strip_dashes k"
  by (simp add: strip_dashes_def dropWhile_append)

lemma strip_dashes_id:
  "k = [] \<or> last k \<noteq> CHR ''-'' \<Longrightarrow> strip_dashes k = k"
  by (cases k rule: rev_cases) (auto simp: strip_dashes_def)

lemma strip_dashes_last:
  "strip_dashes s \<noteq> [] \<Longrightarrow> last (strip_dashes s) \<noteq> CHR ''-''"
  unfolding strip_dashes_def
  using hd_dropWhile [of "\<lambda>c. c = CHR ''-''" "rev s"]
  by (simp add: last_rev)

lemma takeWhile_eq_replicate:
  "takeWhile (\<lambda>c. c = a) xs = replicate (length (takeWhile (\<lambda>c. c = a) xs)) a"
  by (induction xs) auto

lemma strip_dashes_decomp:
  "s = strip_dashes s @ replicate (length (takeWhile (\<lambda>c. c = CHR ''-'') (rev s))) CHR ''-''"
proof -
  let ?P = "\<lambda>c. c = CHR ''-''"
  let ?n = "length (takeWhile ?P (rev s))"
  have "rev s = takeWhile ?P (rev s) @ dropWhile ?P (rev s)" by simp
  then have "rev (rev s) = rev (takeWhile ?P (rev s) @ dropWhile ?P (rev s))" by simp
  then have "s = rev (dropWhile ?P (rev s)) @ rev (takeWhile ?P (rev s))"
    by (simp only: rev_rev_ident rev_append)
  moreover have "rev (takeWhile ?P (rev s)) = replicate ?n CHR ''-''"
    using takeWhile_eq_replicate [of "CHR ''-''" "rev s"]
    by (metis rev_replicate)
  ultimately show ?thesis unfolding strip_dashes_def by simp
qed

lemma segments_nonempty: "s \<in> set (segments p) \<Longrightarrow> s \<noteq> []"
  by (simp add: segments_def)

text \<open>
  The segments of a path written as \<^verbatim>\<open>/s1/s2/.../sn\<close>, each \<open>si\<close> non-empty and free
  of slashes, are \<open>s1, ..., sn\<close>.
\<close>

lemma split_no_sep: "c \<notin> set s \<Longrightarrow> split c s = [s]"
  by (induction s) auto

lemma split_append_sep:
  "c \<notin> set s \<Longrightarrow> split c (s @ c # rest) = s # split c rest"
  by (induction s) auto

lemma split_Cons_sep: "split c (c # rest) = [] # split c rest"
  by simp

lemma segments_path:
  assumes "\<forall>s\<in>set ss. s \<noteq> [] \<and> CHR ''/'' \<notin> set s"
  shows "segments (concat (map (\<lambda>s. CHR ''/'' # s) ss)) = ss"
  using assms
proof (induction ss)
  case Nil
  show ?case by (simp add: segments_def)
next
  case (Cons s ss)
  then have s: "s \<noteq> []" "CHR ''/'' \<notin> set s" by auto
  let ?rest = "concat (map (\<lambda>s. CHR ''/'' # s) ss)"
  have ih: "filter (\<lambda>x. x \<noteq> []) (split CHR ''/'' ?rest) = ss"
    using Cons by (simp add: segments_def)
  show ?case
  proof (cases ss)
    case Nil
    then show ?thesis
      using s by (simp add: segments_def split_no_sep)
  next
    case (Cons t ts)
    then have rest: "?rest = CHR ''/'' # t @ concat (map (\<lambda>s. CHR ''/'' # s) ts)"
      by simp
    from rest have "split CHR ''/'' (s @ ?rest) = s # split CHR ''/'' (t @ concat (map (\<lambda>s. CHR ''/'' # s) ts))"
      using s(2) by (simp add: split_append_sep)
    moreover have "split CHR ''/'' ?rest = [] # split CHR ''/'' (t @ concat (map (\<lambda>s. CHR ''/'' # s) ts))"
      using rest by simp
    ultimately show ?thesis
      using ih s(1) by (simp add: segments_def)
  qed
qed

lemma parse_path_marker:
  assumes "segments pathname = pre @ ''live_cdn'' # app # key # rest"
    and "''live_cdn'' \<notin> set pre"
  shows "parse_path pathname =
           empty_out\<lparr>appId := JStr app, streamKey := JStr (strip_dashes key)\<rparr>"
  using assms
  by (simp add: parse_path_def indexOf_append_marker nth_append)

lemma parse_path_after_marker:
  "parse_path pathname =
     (if ''live_cdn'' \<in> set (segments pathname) \<and> 2 \<le> length (after_marker (segments pathname))
      then empty_out\<lparr>appId := JStr (after_marker (segments pathname) ! 0),
                     streamKey := JStr (strip_dashes (after_marker (segments pathname) ! 1))\<rparr>
      else empty_out)"
proof (cases "indexOf ''live_cdn'' (segments pathname)")
  case None
  then show ?thesis
    using indexOf_None_iff [of "''live_cdn''" "segments pathname"]
    by (simp add: parse_path_def Let_def)
next
  case (Some i)
  let ?xs = "segments pathname"
  from indexOf_Some_decomp [OF Some]
  have dec: "?xs = take i ?xs @ ''live_cdn'' # drop (Suc i) ?xs"
    and nin: "''live_cdn'' \<notin> set (take i ?xs)" and lt: "i < length ?xs"
    by auto
  have mem: "''live_cdn'' \<in> set ?xs"
    using indexOf_None_iff [of "''live_cdn''" ?xs] Some by auto
  have "dropWhile (\<lambda>s. s \<noteq> ''live_cdn'') ?xs = ''live_cdn'' # drop (Suc i) ?xs"
    using nin dropWhile_append2 [of "take i ?xs" "\<lambda>s. s \<noteq> ''live_cdn''" "''live_cdn'' # drop (Suc i) ?xs"] dec
    by auto
  then have am: "after_marker ?xs = drop (Suc i) ?xs"
    by (simp add: after_marker_def)
  have len: "length (after_marker ?xs) = length ?xs - Suc i"
    by (simp add: am)
  show ?thesis
  proof (cases "i + 3 \<le> length ?xs")
    case True
    then show ?thesis
      using Some mem len by (simp add: parse_path_def Let_def am)
  next
    case False
    then show ?thesis
      using Some mem len lt by (simp add: parse_path_def Let_def)
  qed
qed

lemma truthy_js_prop: "truthy (js_prop b k) \<Longrightarrow> truthy b"
  by (cases b) auto

lemma m3u8_of_eq:
  "m3u8_of nt req =
     (if truthy (js_prop (req_body req) ''m3u8'')
      then to_String nt (js_prop (req_body req) ''m3u8'')
      else Inr [])"
  using truthy_js_prop [of "req_body req" "''m3u8''"] by (auto simp: m3u8_of_def)

lemma livepush_lookup_keeps:
  "appId (livepush_lookup a out) = appId out \<and> streamKey (livepush_lookup a out) = streamKey out"
  by (auto simp: livepush_lookup_def Let_def split: fetched.splits jsval.splits sum.splits option.splits)

lemma resolve_stream_ok:
  assumes "m3u8_of (number_text w) req = Inr url" and "url \<noteq> []"
    and "url_pathname w url = Some pathname"
    and "truthy (appId (parse_path pathname))" and "truthy (streamKey (parse_path pathname))"
  shows "resolve_stream cfg w req =
           Response 200 (ResolveJson
             (if LIVEPUSH_API_TOKEN cfg \<noteq> []
              then livepush_lookup (livepush_streams w) (parse_path pathname)
              else parse_path pathname))"
  using assms by (simp add: resolve_stream_def Let_def)

text \<open>
  C3, as the code has it. The request carries a well-formed URL whose path splits into
  the segments \<open>pre @ live_cdn # app # key # rest\<close>, with no \<open>live_cdn\<close> in \<open>pre\<close>
  (the marker is the first occurrence), and the key segment is a non-empty \<open>k\<close> that
  does not end in a dash, followed by any number \<open>n\<close> of dashes. Then the resolver
  answers 200 with \<open>appId = app\<close> and \<open>streamKey = k\<close>. The answer is a function of the
  request, the configuration and the collaborators alone: no state is read.
\<close>

theorem resolve_stream_live_cdn:
  assumes conv: "m3u8_of (number_text w) req = Inr url" and nonempty: "url \<noteq> []"
    and url: "url_pathname w url = Some pathname"
    and segs: "segments pathname = pre @ ''live_cdn'' # app # (k @ replicate n CHR ''-'') # rest"
    and first: "''live_cdn'' \<notin> set pre"
    and key: "k \<noteq> []" and nodash: "last k \<noteq> CHR ''-''"
  shows "\<exists>out. resolve_stream cfg w req = Response 200 (ResolveJson out)
               \<and> appId out = JStr app \<and> streamKey out = JStr k"
proof -
  have k: "strip_dashes (k @ replicate n CHR ''-'') = k"
    using nodash by (simp add: strip_dashes_append_dashes strip_dashes_id)
  have app: "app \<noteq> []"
    using segments_nonempty [of app pathname] segs by simp
  have pp: "parse_path pathname = empty_out\<lparr>appId := JStr app, streamKey := JStr k\<rparr>"
    using parse_path_marker [OF segs first] k by simp
  have "resolve_stream cfg w req =
           Response 200 (ResolveJson
             (if LIVEPUSH_API_TOKEN cfg \<noteq> []
              then livepush_lookup (livepush_streams w) (parse_path pathname)
              else parse_path pathname))"
    using key app by (intro resolve_stream_ok [OF conv nonempty url]) (simp_all add: pp)
  then show ?thesis
    using livepush_lookup_keeps [of "livepush_streams w" "parse_path pathname"]
    by (auto simp: pp)
qed

text \<open>
  The URL \<^verbatim>\<open>https://cdn.example/live_cdn/app1/key1--/index.m3u8\<close>: two trailing dashes
  are stripped, and the directory of the example (keys \<^verbatim>\<open>abc--\<close> and \<^verbatim>\<open>abc\<close>) has no
  match for \<^verbatim>\<open>key1\<close>.
\<close>

theorem resolve_stream_live_cdn_witness:
  "resolve_stream example_config example_world
     (example_request (JObj [(''m3u8'', JStr ''https://cdn.example/live_cdn/app1/key1--/index.m3u8'')]))
   = Response 200 (ResolveJson
       \<lparr>appId = JStr ''app1'', streamKey = JStr ''key1'', streamId = JNull,
        raw = \<lparr>streamsCount = Some 2, matched = None, lookup_error = None\<rparr>\<rparr>)"
proof -
  let ?req = "example_request (JObj [(''m3u8'', JStr ''https://cdn.example/live_cdn/app1/key1--/index.m3u8'')])"
  let ?url = "''https://cdn.example/live_cdn/app1/key1--/index.m3u8''"
  have m: "m3u8_of (number_text example_world) ?req = Inr ?url"
    by (simp add: m3u8_of_def example_request_def)
  have 1: "?url \<noteq> []" by simp
  have 2: "url_pathname example_world ?url = Some ''/live_cdn/app1/key1--/index.m3u8''"
    by (simp add: example_world_def)
  have 3: "segments ''/live_cdn/app1/key1--/index.m3u8''
             = [] @ ''live_cdn'' # ''app1'' # (''key1'' @ replicate 2 CHR ''-'') # [''index.m3u8'']"
    by (simp add: segments_def numeral_2_eq_2)
  have 4: "''live_cdn'' \<notin> set []" by simp
  have 5: "''key1'' \<noteq> []" by simp
  have 6: "last ''key1'' \<noteq> CHR ''-''" by simp
  from resolve_stream_live_cdn [OF m 1 2 3 4 5 6, of example_config]
  obtain out where out: "resolve_stream example_config example_world ?req = Response 200 (ResolveJson out)"
    "appId out = JStr ''app1''" "streamKey out = JStr ''key1''"
    by blast
  have "resolve_stream example_config example_world ?req
     = Response 200 (ResolveJson
       \<lparr>appId = JStr ''app1'', streamKey = JStr ''key1'', streamId = JNull,
        raw = \<lparr>streamsCount = Some 2, matched = None, lookup_error = None\<rparr>\<rparr>)"
    by (simp add: resolve_stream_def m3u8_of_def example_request_def example_world_def
        example_config_def parse_path_def
        segments_def Let_def empty_out_def strip_dashes_def livepush_lookup_def
        stream_matches_def js_or_def)
  with out show ?thesis by simp
qed

text \<open>
  C3. Claimed: for every well-formed URL whose path has the segment \<open>live_cdn\<close>
  followed by at least two segments, the resolver returns the application id and the
  stripped stream key. When the key segment consists of dashes only, the stripped key
  is empty and the handler answers 422 instead: for
  \<^verbatim>\<open>https://cdn.example/live_cdn/app1/--/index.m3u8\<close> the marker is followed by three
  segments, and the response is the parse error.
\<close>

theorem resolve_stream_all_dashes_counterexample:
  "url_pathname example_world ''https://cdn.example/live_cdn/app1/--/index.m3u8''
     = Some ''/live_cdn/app1/--/index.m3u8''
   \<and> segments ''/live_cdn/app1/--/index.m3u8'' = [''live_cdn'', ''app1'', ''--'', ''index.m3u8'']
   \<and> resolve_stream example_config example_world
       (example_request (JObj [(''m3u8'', JStr ''https://cdn.example/live_cdn/app1/--/index.m3u8'')]))
     = Response 422
         (ParsedErrorJson ''could not parse appId/streamKey from m3u8''
            \<lparr>appId = JStr ''app1'', streamKey = JStr [], streamId = JNull,
             raw = \<lparr>streamsCount = None, matched = None, lookup_error = None\<rparr>\<rparr>)"
  by (simp add: resolve_stream_def m3u8_of_def example_request_def example_world_def
      example_config_def parse_path_def segments_def Let_def empty_out_def strip_dashes_def)

lemma status_resolve_stream_400:
  assumes "m3u8_of (number_text w) req = Inr url"
  shows "(status (resolve_stream cfg w req) = Some 400) =
           (url = [] \<or> url_pathname w url = None)"
  using assms by (auto simp: resolve_stream_def Let_def split: option.splits)

lemma status_resolve_stream_422:
  assumes "m3u8_of (number_text w) req = Inr url"
  shows "(status (resolve_stream cfg w req) = Some 422) =
     (url \<noteq> [] \<and>
      (\<exists>pathname. url_pathname w url = Some pathname \<and>
         (\<not> truthy (appId (parse_path pathname)) \<or> \<not> truthy (streamKey (parse_path pathname)))))"
  using assms by (auto simp: resolve_stream_def Let_def split: option.splits)

lemma after_marker_nonempty:
  "s \<in> set (after_marker (segments p)) \<Longrightarrow> s \<noteq> []"
proof -
  assume "s \<in> set (after_marker (segments p))"
  then have "s \<in> set (dropWhile (\<lambda>s. s \<noteq> ''live_cdn'') (segments p))"
    unfolding after_marker_def by (metis list.sel(2) list.set_sel(2))
  then have "s \<in> set (segments p)" by (rule set_dropWhileD)
  then show ?thesis by (rule segments_nonempty)
qed

lemma parse_path_unparsed_iff:
  "(\<not> truthy (appId (parse_path pathname)) \<or> \<not> truthy (streamKey (parse_path pathname))) =
     (''live_cdn'' \<notin> set (segments pathname)
      \<or> length (after_marker (segments pathname)) < 2
      \<or> strip_dashes (after_marker (segments pathname) ! 1) = [])"
proof (cases "''live_cdn'' \<in> set (segments pathname) \<and> 2 \<le> length (after_marker (segments pathname))")
  case True
  then have "0 < length (after_marker (segments pathname))"
    by linarith
  then have "after_marker (segments pathname) ! 0 \<in> set (after_marker (segments pathname))"
    by (rule nth_mem)
  then have "after_marker (segments pathname) ! 0 \<noteq> []"
    by (rule after_marker_nonempty)
  with True show ?thesis
    by (simp add: parse_path_after_marker empty_out_def)
next
  case False
  then show ?thesis
    by (auto simp: parse_path_after_marker empty_out_def)
qed

text \<open>
  The error answers of \<^verbatim>\<open>POST /resolve/stream\<close>, for a request whose \<^verbatim>\<open>m3u8\<close> field is
  missing (absent or falsy: its text is then empty) or converts to the text \<open>url\<close>.
  The handler answers 400 exactly when the text is empty or not a well-formed URL; it
  answers 422 exactly when the text is a well-formed URL and, among the segments of
  its path, the marker \<open>live_cdn\<close> is absent, or fewer than two segments follow its
  first occurrence, or the second segment after it is empty once its trailing dashes
  are stripped. The body of a 422 carries the partial parse: the application id and an
  empty stream key when only the key is empty, and \<^verbatim>\<open>null\<close> for both otherwise.
\<close>

lemma resolve_stream_status:
  assumes conv: "m3u8_of (number_text w) req = Inr url"
  shows "((status (resolve_stream cfg w req) = Some 400) =
            (url = [] \<or> url_pathname w url = None))
       \<and> ((status (resolve_stream cfg w req) = Some 422) =
            (url \<noteq> []
             \<and> (\<exists>pathname.
                   url_pathname w url = Some pathname
                   \<and> (''live_cdn'' \<notin> set (segments pathname)
                      \<or> length (after_marker (segments pathname)) < 2
                      \<or> strip_dashes (after_marker (segments pathname) ! 1) = []))))
       \<and> (\<forall>pathname.
            status (resolve_stream cfg w req) = Some 422 \<and> url_pathname w url = Some pathname
            \<longrightarrow> resolve_stream cfg w req =
                  Response 422
                    (ParsedErrorJson ''could not parse appId/streamKey from m3u8''
                       (if ''live_cdn'' \<in> set (segments pathname)
                           \<and> 2 \<le> length (after_marker (segments pathname))
                        then empty_out\<lparr>appId := JStr (after_marker (segments pathname) ! 0),
                                       streamKey := JStr []\<rparr>
                        else empty_out)))"
proof (intro conjI allI impI)
  show "(status (resolve_stream cfg w req) = Some 400) =
            (url = [] \<or> url_pathname w url = None)"
    by (rule status_resolve_stream_400 [OF conv])
next
  show "(status (resolve_stream cfg w req) = Some 422) =
            (url \<noteq> []
             \<and> (\<exists>pathname.
                   url_pathname w url = Some pathname
                   \<and> (''live_cdn'' \<notin> set (segments pathname)
                      \<or> length (after_marker (segments pathname)) < 2
                      \<or> strip_dashes (after_marker (segments pathname) ! 1) = [])))"
    unfolding status_resolve_stream_422 [OF conv] parse_path_unparsed_iff by simp
next
  fix pathname
  assume a: "status (resolve_stream cfg w req) = Some 422 \<and> url_pathname w url = Some pathname"
  then have ne: "url \<noteq> []"
    and bad: "\<not> truthy (appId (parse_path pathname)) \<or> \<not> truthy (streamKey (parse_path pathname))"
    unfolding status_resolve_stream_422 [OF conv] by auto
  from a have u: "url_pathname w url = Some pathname" by simp
  have r: "resolve_stream cfg w req =
      Response 422 (ParsedErrorJson ''could not parse appId/streamKey from m3u8'' (parse_path pathname))"
    using bad ne u conv by (simp add: resolve_stream_def Let_def)
  from bad have cases: "''live_cdn'' \<notin> set (segments pathname)
      \<or> length (after_marker (segments pathname)) < 2
      \<or> strip_dashes (after_marker (segments pathname) ! 1) = []"
    unfolding parse_path_unparsed_iff .
  have "parse_path pathname =
          (if ''live_cdn'' \<in> set (segments pathname)
                       \<and> 2 \<le> length (after_marker (segments pathname))
                    then empty_out\<lparr>appId := JStr (after_marker (segments pathname) ! 0),
                                   streamKey := JStr []\<rparr>
                    else empty_out)"
    using cases by (auto simp: parse_path_after_marker)
  with r show "resolve_stream cfg w req =
              Response 422
                (ParsedErrorJson ''could not parse appId/streamKey from m3u8''
                   (if ''live_cdn'' \<in> set (segments pathname)
                       \<and> 2 \<le> length (after_marker (segments pathname))
                    then empty_out\<lparr>appId := JStr (after_marker (segments pathname) ! 0),
                                   streamKey := JStr []\<rparr>
                    else empty_out))"
    by simp
qed

text \<open>
  A body without \<^verbatim>\<open>m3u8\<close>, a text that is no URL, a path without the marker, a path
  that ends right after the application id, and a key of dashes only.
\<close>

lemma resolve_stream_status_examples:
  "resolve_stream example_config example_world (example_request (JObj []))
     = Response 400 (ErrorJson ''m3u8 required'')
   \<and> resolve_stream example_config example_world
        (example_request (JObj [(''m3u8'', JStr ''not a url'')]))
     = Response 400 (ErrorJson ''invalid m3u8 url'')
   \<and> resolve_stream example_config example_world
        (example_request (JObj [(''m3u8'', JStr ''https://cdn.example/vod/app1/key1/index.m3u8'')]))
       = Response 422 (ParsedErrorJson ''could not parse appId/streamKey from m3u8'' empty_out)
   \<and> resolve_stream example_config example_world
        (example_request (JObj [(''m3u8'', JStr ''https://cdn.example/live_cdn/app1'')]))
       = Response 422 (ParsedErrorJson ''could not parse appId/streamKey from m3u8'' empty_out)
   \<and> resolve_stream example_config example_world
        (example_request (JObj [(''m3u8'', JStr ''https://cdn.example/live_cdn/app1/--/index.m3u8'')]))
       = Response 422 (ParsedErrorJson ''could not parse appId/streamKey from m3u8''
           (empty_out\<lparr>appId := JStr ''app1'', streamKey := JStr []\<rparr>))"
  by (simp add: resolve_stream_def m3u8_of_def example_request_def example_world_def
      parse_path_def segments_def Let_def strip_dashes_def empty_out_def)

text \<open>
  What the conversion to text throws on: an object with a \<^verbatim>\<open>toString\<close> property of its
  own, alone or inside arrays.
\<close>

lemma to_String_object:
  "to_String nt (JObj kvs) = Inl TypeError \<longleftrightarrow> map_of kvs ''toString'' \<noteq> None"
  by simp

lemma resolve_stream_throws:
  assumes "truthy (js_prop (req_body req) ''m3u8'')"
    and "to_String (number_text w) (js_prop (req_body req) ''m3u8'') = Inl e"
  shows "resolve_stream cfg w req = Unhandled"
  using assms by (simp add: resolve_stream_def m3u8_of_eq)

text \<open>
  C7. Claimed: \<^verbatim>\<open>POST /resolve/stream\<close> answers 400 exactly when the \<^verbatim>\<open>m3u8\<close> field is
  missing or is not a well-formed URL. The conversion \<^verbatim>\<open>String(req.body.m3u8)\<close> stands
  one statement before the \<^verbatim>\<open>try\<close> that turns a bad URL into the 400. For every
  request whose \<^verbatim>\<open>m3u8\<close> is an object with a \<^verbatim>\<open>toString\<close> property of its own, which is
  no URL, the conversion throws: the handler answers neither 400 nor anything else.
\<close>

theorem resolve_stream_object_m3u8_unhandled:
  assumes "js_prop (req_body req) ''m3u8'' = JObj kvs" and "map_of kvs ''toString'' = Some v"
  shows "resolve_stream cfg w req = Unhandled \<and> status (resolve_stream cfg w req) = None"
proof -
  have "truthy (js_prop (req_body req) ''m3u8'')"
    by (simp add: assms(1))
  moreover have "to_String (number_text w) (js_prop (req_body req) ''m3u8'') = Inl TypeError"
    by (simp add: assms)
  ultimately have "resolve_stream cfg w req = Unhandled"
    by (rule resolve_stream_throws)
  then show ?thesis by simp
qed

text \<open>The body \<^verbatim>\<open>{"m3u8": {"toString": 1}}\<close>.\<close>

theorem resolve_stream_object_m3u8_unhandled_witness:
  "js_prop (req_body (example_request (JObj [(''m3u8'', JObj [(''toString'', JNum 1)])]))) ''m3u8''
     = JObj [(''toString'', JNum 1)]
   \<and> resolve_stream example_config example_world
       (example_request (JObj [(''m3u8'', JObj [(''toString'', JNum 1)])]))
     = Unhandled"
proof -
  let ?req = "example_request (JObj [(''m3u8'', JObj [(''toString'', JNum 1)])])"
  have f: "js_prop (req_body ?req) ''m3u8'' = JObj [(''toString'', JNum 1)]"
    by (simp add: example_request_def)
  have t: "map_of [(''toString'', JNum 1)] ''toString'' = Some (JNum 1)"
    by simp
  from f resolve_stream_object_m3u8_unhandled [OF f t, of example_config example_world]
  show ?thesis by blast
qed

lemma stream_matches_record:
  assumes "is_stream_record s"
  shows "stream_matches (JStr key) s = Inr (strip_dashes (record_key s) = key)"
proof -
  from assms obtain kvs where s: "s = JObj kvs"
    by (cases s) auto
  from assms show ?thesis
    by (cases "js_prop (JObj kvs) ''streamKey''")
       (simp_all add: s stream_matches_def record_key_def js_or_def)
qed

lemma find_stream_first:
  assumes "\<forall>p\<in>set pre. is_stream_record p \<and> strip_dashes (record_key p) \<noteq> key"
    and "is_stream_record s" and "strip_dashes (record_key s) = key"
  shows "find_stream (JStr key) (pre @ s # post) = Inr (Some s)"
  using assms by (induction pre) (simp_all add: stream_matches_record)

lemma find_stream_none:
  assumes "\<forall>p\<in>set arr. is_stream_record p \<and> strip_dashes (record_key p) \<noteq> key"
  shows "find_stream (JStr key) arr = Inr None"
  using assms by (induction arr) (simp_all add: stream_matches_record)

lemma truthy_stream_record: "is_stream_record s \<Longrightarrow> truthy s"
  by (cases s) auto

text \<open>
  C4. The directory is a list of stream records (objects whose \<^verbatim>\<open>streamKey\<close> is a
  string, or absent) and \<open>key\<close> is the normalized key of the query. If \<open>s\<close> is the first record
  in list order whose key, with its trailing dashes stripped, equals \<open>key\<close> (every
  record before it differs), the lookup returns \<open>s\<close> as the match and its \<^verbatim>\<open>id\<close> (or
  \<^verbatim>\<open>null\<close>) as the stream id; if no record matches, it returns no match. The comparison
  is equality of strings: nothing is folded or approximated. The count is the length
  of the directory, and no failure is recorded.
\<close>

theorem livepush_lookup_first_match:
  assumes "\<forall>s\<in>set arr. is_stream_record s" and "streamKey out = JStr key"
  shows "(arr = pre @ s # post
            \<and> (\<forall>p\<in>set pre. strip_dashes (record_key p) \<noteq> key)
            \<and> strip_dashes (record_key s) = key
          \<longrightarrow> matched (raw (livepush_lookup (Json (JArr arr)) out)) = Some s
              \<and> streamId (livepush_lookup (Json (JArr arr)) out) = js_or (js_prop s ''id'') JNull)
       \<and> ((\<forall>p\<in>set arr. strip_dashes (record_key p) \<noteq> key)
          \<longrightarrow> matched (raw (livepush_lookup (Json (JArr arr)) out)) = matched (raw out)
              \<and> streamId (livepush_lookup (Json (JArr arr)) out) = streamId out)
       \<and> streamsCount (raw (livepush_lookup (Json (JArr arr)) out)) = Some (length arr)
       \<and> lookup_error (raw (livepush_lookup (Json (JArr arr)) out)) = lookup_error (raw out)"
proof (intro conjI impI)
  assume a: "arr = pre @ s # post
            \<and> (\<forall>p\<in>set pre. strip_dashes (record_key p) \<noteq> key)
            \<and> strip_dashes (record_key s) = key"
  with assms(1) have "find_stream (JStr key) arr = Inr (Some s)" and "truthy s"
    by (auto intro!: find_stream_first truthy_stream_record)
  then show "matched (raw (livepush_lookup (Json (JArr arr)) out)) = Some s"
    and "streamId (livepush_lookup (Json (JArr arr)) out) = js_or (js_prop s ''id'') JNull"
    using assms(2) by (simp_all add: livepush_lookup_def Let_def)
next
  assume "\<forall>p\<in>set arr. strip_dashes (record_key p) \<noteq> key"
  with assms(1) have "find_stream (JStr key) arr = Inr None"
    by (auto intro!: find_stream_none)
  then show "matched (raw (livepush_lookup (Json (JArr arr)) out)) = matched (raw out)"
    and "streamId (livepush_lookup (Json (JArr arr)) out) = streamId out"
    using assms(2) by (simp_all add: livepush_lookup_def Let_def)
next
  have ne: "find_stream (JStr key) arr \<noteq> Inl e" for e
    using assms(1) by (induction arr) (auto simp: stream_matches_record split: bool.splits)
  show "streamsCount (raw (livepush_lookup (Json (JArr arr)) out)) = Some (length arr)"
    by (auto simp: livepush_lookup_def Let_def split: sum.splits option.splits)
  show "lookup_error (raw (livepush_lookup (Json (JArr arr)) out)) = lookup_error (raw out)"
    using ne assms(2)
    by (auto simp: livepush_lookup_def Let_def split: sum.splits option.splits)
qed

text \<open>
  The directory \<^verbatim>\<open>[{streamKey:"abc--", id:1}, {streamKey:"abc", id:2}]\<close> and the query
  \<^verbatim>\<open>abc\<close>: the record with id 1 is returned.
\<close>

theorem livepush_lookup_first_match_witness:
  "is_stream_record (JObj [(''streamKey'', JStr ''abc--''), (''id'', JNum 1)])
   \<and> is_stream_record (JObj [(''streamKey'', JStr ''abc''), (''id'', JNum 2)])
   \<and> strip_dashes (record_key (JObj [(''streamKey'', JStr ''abc--''), (''id'', JNum 1)])) = ''abc''
   \<and> matched (raw (livepush_lookup
        (Json (JArr [JObj [(''streamKey'', JStr ''abc--''), (''id'', JNum 1)],
                     JObj [(''streamKey'', JStr ''abc''), (''id'', JNum 2)]]))
        (empty_out\<lparr>appId := JStr ''app1'', streamKey := JStr ''abc''\<rparr>)))
     = Some (JObj [(''streamKey'', JStr ''abc--''), (''id'', JNum 1)])
   \<and> streamId (livepush_lookup
        (Json (JArr [JObj [(''streamKey'', JStr ''abc--''), (''id'', JNum 1)],
                     JObj [(''streamKey'', JStr ''abc''), (''id'', JNum 2)]]))
        (empty_out\<lparr>appId := JStr ''app1'', streamKey := JStr ''abc''\<rparr>))
     = JNum 1"
proof -
  let ?r1 = "JObj [(''streamKey'', JStr ''abc--''), (''id'', JNum 1)]"
  let ?r2 = "JObj [(''streamKey'', JStr ''abc''), (''id'', JNum 2)]"
  let ?out = "empty_out\<lparr>appId := JStr ''app1'', streamKey := JStr ''abc''\<rparr>"
  have recs: "\<forall>s\<in>set [?r1, ?r2]. is_stream_record s" by simp
  have key: "streamKey ?out = JStr ''abc''" by simp
  have k1: "strip_dashes (record_key ?r1) = ''abc''"
    by (simp add: record_key_def strip_dashes_def)
  have dec: "[?r1, ?r2] = [] @ ?r1 # [?r2]" by simp
  from livepush_lookup_first_match [OF recs key, of "[]" ?r1 "[?r2]"] dec k1
  have "matched (raw (livepush_lookup (Json (JArr [?r1, ?r2])) ?out)) = Some ?r1
      \<and> streamId (livepush_lookup (Json (JArr [?r1, ?r2])) ?out) = js_or (js_prop ?r1 ''id'') JNull"
    by simp
  then show ?thesis
    using k1 by (simp add: js_or_def)
qed

text \<open>
  C5, as the code has it. The URL of the request parses (marker, application id and a
  key that is non-empty once stripped) and \<^verbatim>\<open>LIVEPUSH_API_TOKEN\<close> is set. If the fetch
  of the directory fails, the handler answers 200 with the parsed application id and
  stream key, \<^verbatim>\<open>streamId = null\<close> and \<^verbatim>\<open>raw.error = 'livepush_lookup_failed'\<close>. If the
  fetch returns a value that is not a list, the handler answers 200 with the same
  parse and \<^verbatim>\<open>streamId = null\<close>, and records \<^verbatim>\<open>raw.streamsCount = 0\<close> and no error.
\<close>

theorem resolve_stream_lookup_soft_failure:
  assumes conv: "m3u8_of (number_text w) req = Inr url" and nonempty: "url \<noteq> []"
    and url: "url_pathname w url = Some pathname"
    and segs: "segments pathname = pre @ ''live_cdn'' # app # key # rest"
    and first: "''live_cdn'' \<notin> set pre"
    and key: "strip_dashes key \<noteq> []"
    and token: "LIVEPUSH_API_TOKEN cfg \<noteq> []"
  shows "(livepush_streams w = Rejected \<longrightarrow>
            resolve_stream cfg w req =
              Response 200 (ResolveJson
                \<lparr>appId = JStr app, streamKey = JStr (strip_dashes key), streamId = JNull,
                 raw = \<lparr>streamsCount = None, matched = None,
                        lookup_error = Some ''livepush_lookup_failed''\<rparr>\<rparr>))
       \<and> (livepush_streams w = Json v \<and> (\<forall>arr. v \<noteq> JArr arr) \<longrightarrow>
            resolve_stream cfg w req =
              Response 200 (ResolveJson
                \<lparr>appId = JStr app, streamKey = JStr (strip_dashes key), streamId = JNull,
                 raw = \<lparr>streamsCount = Some 0, matched = None, lookup_error = None\<rparr>\<rparr>))"
proof -
  have app: "app \<noteq> []"
    using segments_nonempty [of app pathname] segs by simp
  have pp: "parse_path pathname =
              empty_out\<lparr>appId := JStr app, streamKey := JStr (strip_dashes key)\<rparr>"
    by (rule parse_path_marker [OF segs first])
  have r: "resolve_stream cfg w req =
             Response 200 (ResolveJson (livepush_lookup (livepush_streams w) (parse_path pathname)))"
    using resolve_stream_ok [OF conv nonempty url, of cfg] key token app
    by (simp add: pp)
  show ?thesis
  proof (intro conjI impI)
    assume "livepush_streams w = Rejected"
    then show "resolve_stream cfg w req =
              Response 200 (ResolveJson
                \<lparr>appId = JStr app, streamKey = JStr (strip_dashes key), streamId = JNull,
                 raw = \<lparr>streamsCount = None, matched = None,
                        lookup_error = Some ''livepush_lookup_failed''\<rparr>\<rparr>)"
      by (simp add: r pp livepush_lookup_def empty_out_def)
  next
    assume "livepush_streams w = Json v \<and> (\<forall>arr. v \<noteq> JArr arr)"
    then show "resolve_stream cfg w req =
              Response 200 (ResolveJson
                \<lparr>appId = JStr app, streamKey = JStr (strip_dashes key), streamId = JNull,
                 raw = \<lparr>streamsCount = Some 0, matched = None, lookup_error = None\<rparr>\<rparr>)"
      by (cases v) (simp_all add: r pp livepush_lookup_def empty_out_def)
  qed
qed

text \<open>A directory that cannot be fetched, and a directory that answers \<^verbatim>\<open>null\<close>.\<close>

theorem resolve_stream_lookup_soft_failure_witness:
  "resolve_stream example_config (example_world\<lparr>livepush_streams := Rejected\<rparr>)
     (example_request (JObj [(''m3u8'', JStr ''https://cdn.example/live_cdn/app1/key1--/index.m3u8'')]))
   = Response 200 (ResolveJson
       \<lparr>appId = JStr ''app1'', streamKey = JStr ''key1'', streamId = JNull,
        raw = \<lparr>streamsCount = None, matched = None,
               lookup_error = Some ''livepush_lookup_failed''\<rparr>\<rparr>)
   \<and> resolve_stream example_config (example_world\<lparr>livepush_streams := Json JNull\<rparr>)
     (example_request (JObj [(''m3u8'', JStr ''https://cdn.example/live_cdn/app1/key1--/index.m3u8'')]))
   = Response 200 (ResolveJson
       \<lparr>appId = JStr ''app1'', streamKey = JStr ''key1'', streamId = JNull,
        raw = \<lparr>streamsCount = Some 0, matched = None, lookup_error = None\<rparr>\<rparr>)"
proof -
  let ?req = "example_request (JObj [(''m3u8'', JStr ''https://cdn.example/live_cdn/app1/key1--/index.m3u8'')])"
  let ?w1 = "example_world\<lparr>livepush_streams := Rejected\<rparr>"
  let ?w2 = "example_world\<lparr>livepush_streams := Json JNull\<rparr>"
  let ?url = "''https://cdn.example/live_cdn/app1/key1--/index.m3u8''"
  have m: "m3u8_of (number_text ?w1) ?req = Inr ?url" "m3u8_of (number_text ?w2) ?req = Inr ?url"
    by (simp_all add: m3u8_of_def example_request_def)
  have 1: "?url \<noteq> []" by simp
  have 2: "url_pathname ?w1 ?url = Some ''/live_cdn/app1/key1--/index.m3u8''"
    "url_pathname ?w2 ?url = Some ''/live_cdn/app1/key1--/index.m3u8''"
    by (simp_all add: example_world_def)
  have 3: "segments ''/live_cdn/app1/key1--/index.m3u8''
             = [] @ ''live_cdn'' # ''app1'' # ''key1--'' # [''index.m3u8'']"
    by (simp add: segments_def)
  have 4: "''live_cdn'' \<notin> set []" by simp
  have 5: "strip_dashes ''key1--'' \<noteq> []" by (simp add: strip_dashes_def)
  have 6: "LIVEPUSH_API_TOKEN example_config \<noteq> []" by (simp add: example_config_def)
  have s: "strip_dashes ''key1--'' = ''key1''" by (simp add: strip_dashes_def)
  have l1: "livepush_streams ?w1 = Rejected" by simp
  have l2: "livepush_streams ?w2 = Json JNull \<and> (\<forall>arr. JNull \<noteq> JArr arr)" by simp
  show ?thesis
    using resolve_stream_lookup_soft_failure [OF m(1) 1 2(1) 3 4 5 6, of JNull] l1
          resolve_stream_lookup_soft_failure [OF m(2) 1 2(2) 3 4 5 6, of JNull] l2
    by (simp add: s)
qed

text \<open>
  C5. Claimed: when the directory fetch fails or returns a non-list, the handler
  records the soft failure \<^verbatim>\<open>lookup_failed\<close>. For a non-list the code records a count
  of zero and no failure: here the directory answers
  \<^verbatim>\<open>{"error": "unauthorized"}\<close>, and \<^verbatim>\<open>raw\<close> has no \<^verbatim>\<open>error\<close>.
\<close>

theorem resolve_stream_non_list_counterexample:
  "resolve_stream example_config
     (example_world\<lparr>livepush_streams := Json (JObj [(''error'', JStr ''unauthorized'')])\<rparr>)
     (example_request (JObj [(''m3u8'', JStr ''https://cdn.example/live_cdn/app1/key1--/index.m3u8'')]))
   = Response 200 (ResolveJson
       \<lparr>appId = JStr ''app1'', streamKey = JStr ''key1'', streamId = JNull,
        raw = \<lparr>streamsCount = Some 0, matched = None, lookup_error = None\<rparr>\<rparr>)"
  by (simp add: resolve_stream_def m3u8_of_def example_request_def example_world_def
      example_config_def parse_path_def segments_def Let_def empty_out_def strip_dashes_def
      livepush_lookup_def)

section \<open>Properties of the token handlers\<close>

lemma decimal_42: "decimal 42 = ''42''"
  by (simp add: decimal_def dec_nat.simps)

lemma status_get_b_404:
  "(status (snd (get_b cfg w req s)) = Some 404) = (store_get (tokenStore s) (req_token req) = None)"
  by (simp add: get_b_def split: option.splits sum.splits)

lemma status_get_qr_404:
  "(status (snd (get_qr w req s)) = Some 404) = (store_get (tokenStore s) (req_token req) = None)"
  by (simp add: get_qr_def Let_def split: option.splits)

lemma store_get_sweep:
  assumes "store_ok (tokenStore s)"
  shows "(store_get (tokenStore (sweep cfg now s)) tok = None) =
           (case store_get (tokenStore s) tok of
              None \<Rightarrow> True
            | Some r \<Rightarrow> now - createdAt r > SHORT_TTL_MS cfg)"
  using store_get_pruneTokens [OF assms, of "SHORT_TTL_MS cfg" now tok]
  by (simp add: sweep_def split: option.splits)

text \<open>
  C1, as the code has it. A read of a token, by \<^verbatim>\<open>GET /b/:token\<close> or by
  \<^verbatim>\<open>GET /qr/:token.png\<close>, answers 404 exactly when the store holds no record for the
  token: the handlers do not look at the age of the record. A record leaves the store
  only in a sweep: right after a sweep at time \<open>now\<close>, a read answers 404 exactly when
  the token had no record or its record had \<open>now - createdAt > SHORT_TTL_MS\<close>.
\<close>

theorem token_read_not_found_iff:
  assumes "store_ok (tokenStore s)"
  shows "((status (snd (get_b cfg w req s)) = Some 404)
            = (store_get (tokenStore s) (req_token req) = None))
       \<and> ((status (snd (get_qr w req s)) = Some 404)
            = (store_get (tokenStore s) (req_token req) = None))
       \<and> ((status (snd (get_b cfg w req (sweep cfg now s))) = Some 404)
            = (case store_get (tokenStore s) (req_token req) of
                 None \<Rightarrow> True
               | Some r \<Rightarrow> now - createdAt r > SHORT_TTL_MS cfg))
       \<and> ((status (snd (get_qr w req (sweep cfg now s))) = Some 404)
            = (case store_get (tokenStore s) (req_token req) of
                 None \<Rightarrow> True
               | Some r \<Rightarrow> now - createdAt r > SHORT_TTL_MS cfg))"
  using store_get_sweep [OF assms, of cfg now "req_token req"]
  by (simp only: status_get_b_404 status_get_qr_404 simp_thms)

lemma example_state_reached:
  "fst (offer_active example_config (example_world\<lparr>date_now := 30000\<rparr>) (example_request JUndefined)
         (fst (nowplaying (example_world\<lparr>date_now := 20000\<rparr>)
                (example_request (JObj [(''artist_id'', JStr ''colleenanthony'')]))
                initial_state)))
   = example_state"
  by (simp add: offer_active_def nowplaying_def example_config_def example_world_def
      example_request_def initial_state_def example_state_def example_skuMap_def
      example_catalog_def js_or_def Let_def product_description_def plain_object_read_def
      product_snapshot_of_def decimal_42)

text \<open>
  A token created at 30000 ms with a TTL of 1800000 ms: it resolves before any sweep
  and after a sweep at 1830000 ms (age equal to the TTL), and is gone after a sweep
  at 1830001 ms.
\<close>

theorem token_read_not_found_iff_witness:
  "store_ok (tokenStore example_state)
   \<and> status (snd (get_b example_config example_world (example_request JUndefined) example_state))
       = Some 200
   \<and> status (snd (get_b example_config example_world (example_request JUndefined)
                     (sweep example_config 1830000 example_state))) = Some 200
   \<and> status (snd (get_b example_config example_world (example_request JUndefined)
                     (sweep example_config 1830001 example_state))) = Some 404
   \<and> status (snd (get_qr example_world (example_request JUndefined)
                     (sweep example_config 1830001 example_state))) = Some 404"
proof -
  have ok: "store_ok (tokenStore example_state)"
    by (simp add: store_ok_def example_state_def)
  have g: "store_get (tokenStore example_state) (req_token (example_request JUndefined))
            = Some \<lparr>product_id = JNum 42, artist_id = JStr ''colleenanthony'', createdAt = 30000\<rparr>"
    by (simp add: store_get_def example_state_def example_request_def)
  have t: "SHORT_TTL_MS example_config = 1800000"
    by (simp add: example_config_def)
  have a: "status (snd (get_b example_config example_world (example_request JUndefined)
                          example_state)) = Some 200"
    by (simp add: get_b_def g final_url_def)
  have b: "status (snd (get_b example_config example_world (example_request JUndefined)
                     (sweep example_config 1830000 example_state))) = Some 200"
    by (simp add: get_b_def sweep_def pruneTokens_def example_state_def store_get_def
        example_request_def t final_url_def)
  show ?thesis
    using ok a b
      token_read_not_found_iff [OF ok, of example_config example_world
        "example_request JUndefined" 1830001]
    by (simp add: g t)
qed

text \<open>
  C1. Claimed: a read of a token whose age at read time is at least the TTL answers
  404 even if the record is still in the store. The token of the example is created
  at 30000 ms; the sweep of 1800000 ms keeps it (age 1770000 ms) and the next sweep is
  due at 1860000 ms. A read at 1830001 ms, one millisecond past \<open>createdAt + TTL\<close>,
  finds the record and answers 200 on both routes.
\<close>

theorem token_read_past_ttl_counterexample:
  "(1830001::int)
     - createdAt \<lparr>product_id = JNum 42, artist_id = JStr ''colleenanthony'', createdAt = 30000\<rparr>
     \<ge> SHORT_TTL_MS example_config
   \<and> store_get (tokenStore (sweep example_config 1800000 example_state)) ''a1b2c3d4e5''
     = Some \<lparr>product_id = JNum 42, artist_id = JStr ''colleenanthony'', createdAt = 30000\<rparr>
   \<and> get_b example_config example_world (example_request JUndefined)
       (sweep example_config 1800000 example_state)
     = (example_state,
        Response 200 (Html (redirect_page example_config
          ''https://subamerica.net/shop/?add-to-cart=42&quantity=1'')))
   \<and> get_qr example_world (example_request JUndefined) (sweep example_config 1800000 example_state)
     = (example_state, Response 200 (Png ''PNG https://relay.example/b/a1b2c3d4e5''))"
  by (simp add: get_b_def get_qr_def sweep_def pruneTokens_def example_state_def store_get_def
      example_request_def example_config_def example_world_def example_qr_def final_url_def
      decimal_42)

lemma redirect_page_contains:
  "redirect_page cfg (SHOP_BASE cfg @ ''/?add-to-cart='' @ id_text @ ''&quantity=1'') =
     (''<!doctype html><meta http-equiv='' @ [CHR 0x22] @ ''refresh'' @ [CHR 0x22]
       @ '' content='' @ [CHR 0x22] @ ''0;url='' @ SHOP_BASE cfg @ ''/?'')
     @ ''add-to-cart='' @ id_text
     @ (''&quantity=1'' @ [CHR 0x22]
       @ ''><script>setTimeout(function(){location.replace('' @ [CHR 0x27]
       @ SHOP_BASE cfg @ ''/checkout'' @ [CHR 0x27] @ '')},500)</script>'')"
  by (simp add: redirect_page_def)

text \<open>Every string and every number converts to text; so does every boolean.\<close>

lemma to_String_primitive:
  "to_String nt (JStr t) = Inr t"
  "\<exists>t. to_String nt (JNum n) = Inr t"
  "\<bar>n\<bar> < 2 ^ 53 \<Longrightarrow> to_String nt (JNum n) = Inr (decimal n)"
  by simp_all

text \<open>
  C9. For a token with a record in the store, both \<^verbatim>\<open>GET /b/:token\<close> and
  \<^verbatim>\<open>GET /qr/:token.png\<close> leave the state, and so the token store, as it was, and
  neither answers 404; a second redemption right after the first, on either route,
  gives the same answer as the first. \<^verbatim>\<open>GET /qr/:token.png\<close> answers with the image,
  or 500 when the renderer fails. \<^verbatim>\<open>GET /b/:token\<close> answers 200 with the redirect page
  whenever the product id of the record converts to text, as every string and number
  does: the redirect target is \<^verbatim>\<open>${SHOP_BASE}/?add-to-cart=<product_id>&quantity=1\<close>,
  contained in the page. For a product id whose conversion throws, the router answers
  500, again without touching the store.
\<close>

theorem redeem_leaves_store:
  assumes present: "store_get (tokenStore s) (req_token req) = Some rec"
  shows "fst (get_b cfg w req s) = s
       \<and> fst (get_qr w req s) = s
       \<and> get_b cfg w req (fst (get_b cfg w req s)) = get_b cfg w req s
       \<and> get_qr w req (fst (get_qr w req s)) = get_qr w req s
       \<and> get_b cfg w req (fst (get_qr w req s)) = get_b cfg w req s
       \<and> status (snd (get_b cfg w req s)) \<noteq> Some 404
       \<and> snd (get_qr w req s) =
           (case qr_toBuffer w (req_protocol req @ ''://'' @ req_host req @ ''/b/'' @ req_token req) of
              Some png \<Rightarrow> Response 200 (Png png)
            | None \<Rightarrow> Response 500 (Text ''QR error''))
       \<and> (to_String (number_text w) (product_id rec) = Inr id_text \<longrightarrow>
            get_b cfg w req s =
              (s, Response 200 (Html (redirect_page cfg
                    (SHOP_BASE cfg @ ''/?add-to-cart='' @ id_text @ ''&quantity=1''))))
            \<and> final_url cfg (number_text w) rec
                = Inr (SHOP_BASE cfg @ ''/?add-to-cart='' @ id_text @ ''&quantity=1'')
            \<and> (\<exists>before after.
                  redirect_page cfg (SHOP_BASE cfg @ ''/?add-to-cart='' @ id_text @ ''&quantity=1'')
                    = before @ ''add-to-cart='' @ id_text @ after))
       \<and> (to_String (number_text w) (product_id rec) = Inl e \<longrightarrow>
            get_b cfg w req s = (s, Response 500 ErrorPage))"
proof -
  have b: "fst (get_b cfg w req s) = s"
    using present by (simp add: get_b_def split: sum.splits)
  have q: "fst (get_qr w req s) = s"
    using present by (simp add: get_qr_def Let_def split: option.splits)
  have n: "status (snd (get_b cfg w req s)) \<noteq> Some 404"
    using present by (simp add: status_get_b_404)
  have q2: "snd (get_qr w req s) =
           (case qr_toBuffer w (req_protocol req @ ''://'' @ req_host req @ ''/b/'' @ req_token req) of
              Some png \<Rightarrow> Response 200 (Png png)
            | None \<Rightarrow> Response 500 (Text ''QR error''))"
    using present by (simp add: get_qr_def Let_def split: option.splits)
  have ok: "get_b cfg w req s =
              (s, Response 200 (Html (redirect_page cfg
                    (SHOP_BASE cfg @ ''/?add-to-cart='' @ id_text @ ''&quantity=1''))))
            \<and> final_url cfg (number_text w) rec
                = Inr (SHOP_BASE cfg @ ''/?add-to-cart='' @ id_text @ ''&quantity=1'')
            \<and> (\<exists>before after.
                  redirect_page cfg (SHOP_BASE cfg @ ''/?add-to-cart='' @ id_text @ ''&quantity=1'')
                    = before @ ''add-to-cart='' @ id_text @ after)"
    if "to_String (number_text w) (product_id rec) = Inr id_text"
  proof -
    have f: "final_url cfg (number_text w) rec
                = Inr (SHOP_BASE cfg @ ''/?add-to-cart='' @ id_text @ ''&quantity=1'')"
      using that by (simp add: final_url_def)
    have g: "get_b cfg w req s =
              (s, Response 200 (Html (redirect_page cfg
                    (SHOP_BASE cfg @ ''/?add-to-cart='' @ id_text @ ''&quantity=1''))))"
      using present f by (simp add: get_b_def)
    have c: "\<exists>before after.
                  redirect_page cfg (SHOP_BASE cfg @ ''/?add-to-cart='' @ id_text @ ''&quantity=1'')
                    = before @ ''add-to-cart='' @ id_text @ after"
      using redirect_page_contains [of cfg id_text] by blast
    from f g c show ?thesis by blast
  qed
  have bad: "get_b cfg w req s = (s, Response 500 ErrorPage)"
    if "to_String (number_text w) (product_id rec) = Inl e"
    using present that by (simp add: get_b_def final_url_def)
  show ?thesis
    using b q n q2 ok bad by simp
qed

text \<open>The token of the example, bound to product 42.\<close>

theorem redeem_leaves_store_witness:
  "store_get (tokenStore example_state) (req_token (example_request JUndefined))
     = Some \<lparr>product_id = JNum 42, artist_id = JStr ''colleenanthony'', createdAt = 30000\<rparr>
   \<and> fst (get_b example_config example_world (example_request JUndefined) example_state)
       = example_state
   \<and> fst (get_qr example_world (example_request JUndefined) example_state) = example_state
   \<and> get_b example_config example_world (example_request JUndefined)
       (fst (get_b example_config example_world (example_request JUndefined) example_state))
     = (example_state,
        Response 200 (Html (redirect_page example_config
          ''https://subamerica.net/shop/?add-to-cart=42&quantity=1'')))
   \<and> final_url example_config (number_text example_world)
        \<lparr>product_id = JNum 42, artist_id = JStr ''colleenanthony'', createdAt = 30000\<rparr>
     = Inr ''https://subamerica.net/shop/?add-to-cart=42&quantity=1''"
proof -
  let ?rec = "\<lparr>product_id = JNum 42, artist_id = JStr ''colleenanthony'', createdAt = 30000\<rparr>"
  let ?req = "example_request JUndefined"
  have g: "store_get (tokenStore example_state) (req_token ?req) = Some ?rec"
    by (simp add: store_get_def example_state_def example_request_def)
  have t: "to_String (number_text example_world) (product_id ?rec) = Inr ''42''"
    by (simp add: decimal_42)
  have base: "SHOP_BASE example_config @ ''/?add-to-cart='' @ ''42'' @ ''&quantity=1''
                = ''https://subamerica.net/shop/?add-to-cart=42&quantity=1''"
    by (simp add: example_config_def)
  note r = redeem_leaves_store [OF g, of example_config example_world "''42''"]
  from r have u: "fst (get_b example_config example_world ?req example_state) = example_state"
    and v: "fst (get_qr example_world ?req example_state) = example_state"
    by blast+
  from r t have p: "get_b example_config example_world ?req example_state =
      (example_state, Response 200 (Html (redirect_page example_config
         (SHOP_BASE example_config @ ''/?add-to-cart='' @ ''42'' @ ''&quantity=1''))))"
    and f: "final_url example_config (number_text example_world) ?rec
         = Inr (SHOP_BASE example_config @ ''/?add-to-cart='' @ ''42'' @ ''&quantity=1'')"
    by blast+
  from g u v p f show ?thesis
    unfolding base by simp
qed

section \<open>The store in reachable states\<close>

text \<open>
  The store starts empty and is written by \<^verbatim>\<open>tokenStore.set\<close> and
  \<^verbatim>\<open>tokenStore.delete\<close> only, so it has one entry per token after any sequence of
  requests and sweeps. A record survives every sweep that runs while its age is at
  most the TTL.
\<close>

lemma store_ok_empty: "store_ok []"
  by (simp add: store_ok_def)

lemma keys_store_set:
  "map fst (store_set k v st) =
     (if k \<in> fst ` set st then map fst st else map fst st @ [k])"
proof (induction st)
  case Nil
  show ?case by simp
next
  case (Cons e st)
  obtain k' v' where e: "e = (k', v')" by (cases e)
  show ?case
  proof (cases "k' = k")
    case True
    then show ?thesis by (simp add: e)
  next
    case False
    then have "(k \<in> fst ` set (e # st)) = (k \<in> fst ` set st)"
      by (auto simp: e)
    with False Cons.IH show ?thesis
      by (simp add: e)
  qed
qed

lemma store_ok_store_set: "store_ok st \<Longrightarrow> store_ok (store_set k v st)"
  unfolding store_ok_def by (simp add: keys_store_set)

lemma store_ok_store_delete: "store_ok st \<Longrightarrow> store_ok (store_delete k st)"
  by (simp add: store_delete_def store_ok_filter)

lemma store_get_store_set:
  "store_get (store_set k v st) k' = (if k' = k then Some v else store_get st k')"
  unfolding store_get_def by (induction st) auto

lemma store_ok_initial: "store_ok (tokenStore initial_state)"
  by (simp add: initial_state_def store_ok_def)

lemma store_ok_nowplaying:
  "store_ok (tokenStore s) \<Longrightarrow> store_ok (tokenStore (fst (nowplaying w req s)))"
  by (simp add: nowplaying_def Let_def)

lemma tokenStore_offer_active:
  "tokenStore (fst (offer_active cfg w req s)) = tokenStore s
   \<or> (\<exists>r. tokenStore (fst (offer_active cfg w req s)) = store_set (random_token w) r (tokenStore s))"
  by (auto simp: offer_active_def Let_def split: option.splits fetched.splits sum.splits)

lemma store_ok_offer_active:
  "store_ok (tokenStore s) \<Longrightarrow> store_ok (tokenStore (fst (offer_active cfg w req s)))"
  using tokenStore_offer_active [of cfg w req s] by (auto simp: store_ok_store_set)

lemma store_ok_sweep:
  "store_ok (tokenStore s) \<Longrightarrow> store_ok (tokenStore (sweep cfg now s))"
  by (simp add: sweep_def store_ok_pruneTokens)

lemma store_get_sweeps_young:
  assumes "store_ok (tokenStore s)" and "store_get (tokenStore s) tok = Some r"
    and "\<forall>t\<in>set ts. t - createdAt r \<le> SHORT_TTL_MS cfg"
  shows "store_get (tokenStore (fold (sweep cfg) ts s)) tok = Some r"
  using assms
proof (induction ts arbitrary: s)
  case Nil
  then show ?case by simp
next
  case (Cons t ts)
  have "store_get (tokenStore (sweep cfg t s)) tok = Some r"
    using store_get_pruneTokens [OF Cons.prems(1), of "SHORT_TTL_MS cfg" t tok] Cons.prems(2,3)
    by (simp add: sweep_def)
  moreover have "store_ok (tokenStore (sweep cfg t s))"
    using Cons.prems(1) by (rule store_ok_sweep)
  ultimately show ?case
    using Cons.IH [of "sweep cfg t s"] Cons.prems(3) by simp
qed

section \<open>Properties of the offer and of the now-playing state\<close>

lemma offer_active_no_artist:
  "\<not> truthy (np_artist_id (nowPlaying s)) \<Longrightarrow> offer_active cfg w req s = (s, no_offer cfg)"
  by (simp add: offer_active_def)

lemma offer_active_no_sku:
  assumes "to_String (number_text w) (np_artist_id (nowPlaying s)) = Inr key"
    and "\<not> read_truthy (plain_object_read (skuMap cfg) key)"
  shows "offer_active cfg w req s = (s, no_offer cfg)"
  using assms by (simp add: offer_active_def Let_def)

lemma offer_active_rejected:
  assumes "to_String (number_text w) (np_artist_id (nowPlaying s)) = Inr key"
    and "url_pathname w (WC_API_URL cfg @ ''/products'') \<noteq> None"
    and "read_String (number_text w) (plain_object_read (skuMap cfg) key) = Inr sku_text"
    and "wc_products w sku_text = Rejected"
  shows "offer_active cfg w req s = (s, no_offer cfg)"
  using assms by (auto simp: offer_active_def Let_def)

lemma offer_active_no_product:
  assumes "to_String (number_text w) (np_artist_id (nowPlaying s)) = Inr key"
    and "url_pathname w (WC_API_URL cfg @ ''/products'') \<noteq> None"
    and "read_String (number_text w) (plain_object_read (skuMap cfg) key) = Inr sku_text"
    and "wc_products w sku_text = Json v"
    and "\<not> truthy (first_product v) \<or> \<not> truthy (js_prop (first_product v) ''id'')
         \<or> js_prop (first_product v) ''type'' = JStr ''variable''
         \<or> js_prop (first_product v) ''stock_status'' \<noteq> JStr ''instock''"
  shows "offer_active cfg w req s = (s, no_offer cfg)"
  using assms by (auto simp: offer_active_def Let_def)

lemma first_product_none: "\<forall>p ps. v \<noteq> JArr (p # ps) \<Longrightarrow> first_product v = JUndefined"
  by (cases v rule: first_product.cases) auto

text \<open>
  Where \<^verbatim>\<open>GET /offer/active\<close> degrades. It answers 200 with
  \<^verbatim>\<open>overlay.visible = false\<close>, no artist and no product, and leaves the state as it was,
  when no artist is set; and, for an artist id that converts to the property key
  \<open>key\<close>, when the read \<^verbatim>\<open>skuMap[key]\<close> is falsy; when the catalog call fails; when the
  catalog answers with something that is not a non-empty list; when the first product
  of the answer is falsy, has no (truthy) \<^verbatim>\<open>id\<close>, has \<^verbatim>\<open>type\<close> \<^verbatim>\<open>variable\<close>, or has a
  \<^verbatim>\<open>stock_status\<close> other than \<^verbatim>\<open>instock\<close>. A catalog call is made once its URL has been
  built from \<^verbatim>\<open>WC_API_URL\<close> and the SKU.
\<close>

lemma offer_active_no_offer_cases:
  "(\<not> truthy (np_artist_id (nowPlaying s))
      \<longrightarrow> offer_active cfg w req s =
            (s, Response 200 (OfferJson \<lparr>visible = False, ttlSec = OFFER_TTL_SEC cfg,
                                          artist = None, product = None\<rparr>)))
   \<and> (to_String (number_text w) (np_artist_id (nowPlaying s)) = Inr key
       \<and> \<not> read_truthy (plain_object_read (skuMap cfg) key)
      \<longrightarrow> offer_active cfg w req s =
            (s, Response 200 (OfferJson \<lparr>visible = False, ttlSec = OFFER_TTL_SEC cfg,
                                          artist = None, product = None\<rparr>)))
   \<and> (to_String (number_text w) (np_artist_id (nowPlaying s)) = Inr key
       \<and> url_pathname w (WC_API_URL cfg @ ''/products'') \<noteq> None
       \<and> read_String (number_text w) (plain_object_read (skuMap cfg) key) = Inr sku_text
       \<and> wc_products w sku_text = Rejected
      \<longrightarrow> offer_active cfg w req s =
            (s, Response 200 (OfferJson \<lparr>visible = False, ttlSec = OFFER_TTL_SEC cfg,
                                          artist = None, product = None\<rparr>)))
   \<and> (to_String (number_text w) (np_artist_id (nowPlaying s)) = Inr key
       \<and> url_pathname w (WC_API_URL cfg @ ''/products'') \<noteq> None
       \<and> read_String (number_text w) (plain_object_read (skuMap cfg) key) = Inr sku_text
       \<and> wc_products w sku_text = Json v
       \<and> (\<forall>p ps. v \<noteq> JArr (p # ps))
      \<longrightarrow> offer_active cfg w req s =
            (s, Response 200 (OfferJson \<lparr>visible = False, ttlSec = OFFER_TTL_SEC cfg,
                                          artist = None, product = None\<rparr>)))
   \<and> (to_String (number_text w) (np_artist_id (nowPlaying s)) = Inr key
       \<and> url_pathname w (WC_API_URL cfg @ ''/products'') \<noteq> None
       \<and> read_String (number_text w) (plain_object_read (skuMap cfg) key) = Inr sku_text
       \<and> wc_products w sku_text = Json (JArr (p # ps))
       \<and> (\<not> truthy p \<or> \<not> truthy (js_prop p ''id'')
          \<or> js_prop p ''type'' = JStr ''variable''
          \<or> js_prop p ''stock_status'' \<noteq> JStr ''instock'')
      \<longrightarrow> offer_active cfg w req s =
            (s, Response 200 (OfferJson \<lparr>visible = False, ttlSec = OFFER_TTL_SEC cfg,
                                          artist = None, product = None\<rparr>)))"
proof (intro conjI impI)
  assume "\<not> truthy (np_artist_id (nowPlaying s))"
  then show "offer_active cfg w req s =
            (s, Response 200 (OfferJson \<lparr>visible = False, ttlSec = OFFER_TTL_SEC cfg,
                                          artist = None, product = None\<rparr>))"
    by (simp add: offer_active_no_artist no_offer_def)
next
  assume "to_String (number_text w) (np_artist_id (nowPlaying s)) = Inr key
       \<and> \<not> read_truthy (plain_object_read (skuMap cfg) key)"
  then have "offer_active cfg w req s = (s, no_offer cfg)"
    by (intro offer_active_no_sku [of w s key cfg]) simp_all
  then show "offer_active cfg w req s =
            (s, Response 200 (OfferJson \<lparr>visible = False, ttlSec = OFFER_TTL_SEC cfg,
                                          artist = None, product = None\<rparr>))"
    by (simp add: no_offer_def)
next
  assume "to_String (number_text w) (np_artist_id (nowPlaying s)) = Inr key
       \<and> url_pathname w (WC_API_URL cfg @ ''/products'') \<noteq> None
       \<and> read_String (number_text w) (plain_object_read (skuMap cfg) key) = Inr sku_text
       \<and> wc_products w sku_text = Rejected"
  then have "offer_active cfg w req s = (s, no_offer cfg)"
    by (intro offer_active_rejected [of w s key cfg sku_text]) simp_all
  then show "offer_active cfg w req s =
            (s, Response 200 (OfferJson \<lparr>visible = False, ttlSec = OFFER_TTL_SEC cfg,
                                          artist = None, product = None\<rparr>))"
    by (simp add: no_offer_def)
next
  assume a: "to_String (number_text w) (np_artist_id (nowPlaying s)) = Inr key
       \<and> url_pathname w (WC_API_URL cfg @ ''/products'') \<noteq> None
       \<and> read_String (number_text w) (plain_object_read (skuMap cfg) key) = Inr sku_text
       \<and> wc_products w sku_text = Json v
       \<and> (\<forall>p ps. v \<noteq> JArr (p # ps))"
  then have "first_product v = JUndefined"
    by (simp add: first_product_none)
  with a have "offer_active cfg w req s = (s, no_offer cfg)"
    by (intro offer_active_no_product [of w s key cfg sku_text v]) simp_all
  then show "offer_active cfg w req s =
            (s, Response 200 (OfferJson \<lparr>visible = False, ttlSec = OFFER_TTL_SEC cfg,
                                          artist = None, product = None\<rparr>))"
    by (simp add: no_offer_def)
next
  assume a: "to_String (number_text w) (np_artist_id (nowPlaying s)) = Inr key
       \<and> url_pathname w (WC_API_URL cfg @ ''/products'') \<noteq> None
       \<and> read_String (number_text w) (plain_object_read (skuMap cfg) key) = Inr sku_text
       \<and> wc_products w sku_text = Json (JArr (p # ps))
       \<and> (\<not> truthy p \<or> \<not> truthy (js_prop p ''id'')
          \<or> js_prop p ''type'' = JStr ''variable''
          \<or> js_prop p ''stock_status'' \<noteq> JStr ''instock'')"
  then have "offer_active cfg w req s = (s, no_offer cfg)"
    by (intro offer_active_no_product [of w s key cfg sku_text "JArr (p # ps)"]) simp_all
  then show "offer_active cfg w req s =
            (s, Response 200 (OfferJson \<lparr>visible = False, ttlSec = OFFER_TTL_SEC cfg,
                                          artist = None, product = None\<rparr>))"
    by (simp add: no_offer_def)
qed

text \<open>
  An artist named by a string that is no property of the map and no name of
  \<^verbatim>\<open>Object.prototype\<close> gets no offer.
\<close>

lemma offer_active_unknown_artist:
  assumes "np_artist_id (nowPlaying s) = JStr name"
    and "map_of (skuMap cfg) name = None" and "name \<notin> set object_prototype_names"
  shows "offer_active cfg w req s = (s, no_offer cfg)"
proof (cases "name = []")
  case True
  with assms(1) show ?thesis by (simp add: offer_active_no_artist)
next
  case False
  have "to_String (number_text w) (np_artist_id (nowPlaying s)) = Inr name"
    by (simp add: assms(1))
  moreover have "\<not> read_truthy (plain_object_read (skuMap cfg) name)"
    using assms(2,3) by (simp add: plain_object_read_def)
  ultimately show ?thesis by (rule offer_active_no_sku)
qed

lemma offer_active_examples:
  "offer_active example_config example_world (example_request JUndefined) initial_state
     = (initial_state,
        Response 200 (OfferJson \<lparr>visible = False, ttlSec = 25, artist = None, product = None\<rparr>))
   \<and> offer_active example_config example_world (example_request JUndefined)
       (example_state\<lparr>nowPlaying :=
          \<lparr>np_artist_id = JStr ''nobody'', np_artist_name = JStr ''Nobody'', np_ts = 20000\<rparr>\<rparr>)
     = (example_state\<lparr>nowPlaying :=
          \<lparr>np_artist_id = JStr ''nobody'', np_artist_name = JStr ''Nobody'', np_ts = 20000\<rparr>\<rparr>,
        Response 200 (OfferJson \<lparr>visible = False, ttlSec = 25, artist = None, product = None\<rparr>))
   \<and> offer_active example_config (example_world\<lparr>wc_products := constant_catalog Rejected\<rparr>)
       (example_request JUndefined) example_state
     = (example_state,
        Response 200 (OfferJson \<lparr>visible = False, ttlSec = 25, artist = None, product = None\<rparr>))
   \<and> offer_active example_config
       (example_world\<lparr>wc_products := constant_catalog (Json (JArr []))\<rparr>)
       (example_request JUndefined) example_state
     = (example_state,
        Response 200 (OfferJson \<lparr>visible = False, ttlSec = 25, artist = None, product = None\<rparr>))
   \<and> offer_active example_config
       (example_world\<lparr>wc_products := constant_catalog
          (Json (JArr [JObj [(''id'', JNum 42), (''type'', JStr ''variable''),
                             (''stock_status'', JStr ''instock'')]]))\<rparr>)
       (example_request JUndefined) example_state
     = (example_state,
        Response 200 (OfferJson \<lparr>visible = False, ttlSec = 25, artist = None, product = None\<rparr>))
   \<and> offer_active example_config
       (example_world\<lparr>wc_products := constant_catalog
          (Json (JArr [JObj [(''id'', JNum 42), (''type'', JStr ''simple''),
                             (''stock_status'', JStr ''outofstock'')]]))\<rparr>)
       (example_request JUndefined) example_state
     = (example_state,
        Response 200 (OfferJson \<lparr>visible = False, ttlSec = 25, artist = None, product = None\<rparr>))
   \<and> offer_active example_config
       (example_world\<lparr>wc_products := constant_catalog
          (Json (JArr [JObj [(''type'', JStr ''simple''), (''stock_status'', JStr ''instock'')]]))\<rparr>)
       (example_request JUndefined) example_state
     = (example_state,
        Response 200 (OfferJson \<lparr>visible = False, ttlSec = 25, artist = None, product = None\<rparr>))"
  by (simp add: offer_active_def no_offer_def Let_def example_config_def example_world_def
      example_state_def initial_state_def example_skuMap_def plain_object_read_def
      object_prototype_names_def constant_catalog_def)

text \<open>
  C2. Claimed: \<^verbatim>\<open>GET /offer/active\<close> answers 200 with \<^verbatim>\<open>overlay.visible = false\<close>, never
  an error, whenever the artist is absent from the SKU map. The handler tests
  \<^verbatim>\<open>!skuMap[artistId]\<close>, and \<^verbatim>\<open>skuMap\<close> is a plain object. For an artist whose id is a
  name of \<^verbatim>\<open>Object.prototype\<close>, such as \<^verbatim>\<open>constructor\<close>, and is no property of the map,
  the read finds the inherited function, which is truthy: the catalog is asked for the
  text of that function as SKU, and a product it answers with is offered, with a token
  minted for it. For an artist id that is an object with a \<^verbatim>\<open>toString\<close> property of its
  own, the read throws on the conversion of the id to a property key, before the
  \<^verbatim>\<open>try\<close>: no response is sent.
\<close>

theorem offer_active_inherited_name:
  "(np_artist_id (nowPlaying s) = JStr name
      \<and> name \<in> set object_prototype_names
      \<and> map_of (skuMap cfg) name = None
      \<and> url_pathname w (WC_API_URL cfg @ ''/products'') = Some u
      \<and> read_String (number_text w) (Inherited name) = Inr sku_text
      \<and> wc_products w sku_text = Json (JArr (p # ps))
      \<and> truthy p \<and> truthy (js_prop p ''id'')
      \<and> js_prop p ''type'' \<noteq> JStr ''variable''
      \<and> js_prop p ''stock_status'' = JStr ''instock''
      \<and> product_snapshot_of cfg w req (random_token w) p = Inr snapshot
     \<longrightarrow> offer_active cfg w req s =
           (s\<lparr>tokenStore :=
                store_set (random_token w)
                  \<lparr>product_id = js_prop p ''id'', artist_id = JStr name, createdAt = date_now w\<rparr>
                  (tokenStore s)\<rparr>,
            Response 200 (OfferJson
              \<lparr>visible = True, ttlSec = OFFER_TTL_SEC cfg,
               artist = Some \<lparr>artist_snapshot_id = JStr name,
                              artist_snapshot_name = js_or (np_artist_name (nowPlaying s)) (JStr name)\<rparr>,
               product = Some snapshot\<rparr>)))
   \<and> (np_artist_id (nowPlaying s) = JObj kvs \<and> map_of kvs ''toString'' = Some v
     \<longrightarrow> offer_active cfg w req s = (s, Unhandled))"
proof (intro conjI impI)
  assume a: "np_artist_id (nowPlaying s) = JStr name
      \<and> name \<in> set object_prototype_names
      \<and> map_of (skuMap cfg) name = None
      \<and> url_pathname w (WC_API_URL cfg @ ''/products'') = Some u
      \<and> read_String (number_text w) (Inherited name) = Inr sku_text
      \<and> wc_products w sku_text = Json (JArr (p # ps))
      \<and> truthy p \<and> truthy (js_prop p ''id'')
      \<and> js_prop p ''type'' \<noteq> JStr ''variable''
      \<and> js_prop p ''stock_status'' = JStr ''instock''
      \<and> product_snapshot_of cfg w req (random_token w) p = Inr snapshot"
  then have ne: "name \<noteq> []"
    by (auto simp: object_prototype_names_def)
  from a have rd: "plain_object_read (skuMap cfg) name = Inherited name"
    by (simp add: plain_object_read_def)
  from a have sku: "read_String (number_text w) (Inherited name) = Inr sku_text"
    by blast
  show "offer_active cfg w req s =
           (s\<lparr>tokenStore :=
                store_set (random_token w)
                  \<lparr>product_id = js_prop p ''id'', artist_id = JStr name, createdAt = date_now w\<rparr>
                  (tokenStore s)\<rparr>,
            Response 200 (OfferJson
              \<lparr>visible = True, ttlSec = OFFER_TTL_SEC cfg,
               artist = Some \<lparr>artist_snapshot_id = JStr name,
                              artist_snapshot_name = js_or (np_artist_name (nowPlaying s)) (JStr name)\<rparr>,
               product = Some snapshot\<rparr>))"
    unfolding offer_active_def Let_def
    using a ne by (simp add: rd sku del: read_String.simps)
next
  assume "np_artist_id (nowPlaying s) = JObj kvs \<and> map_of kvs ''toString'' = Some v"
  then show "offer_active cfg w req s = (s, Unhandled)"
    by (simp add: offer_active_def)
qed

text \<open>
  After \<^verbatim>\<open>POST /nowplaying {"artist_id": "constructor"}\<close>, with the SKU map of the
  example and a catalog that answers with a simple product in stock, number 7; and
  after \<^verbatim>\<open>POST /nowplaying {"artist_id": {"toString": 1}}\<close>.
\<close>

theorem offer_active_inherited_name_witness:
  "fst (nowplaying example_world (example_request (JObj [(''artist_id'', JStr ''constructor'')]))
         initial_state)
     = \<lparr>nowPlaying = \<lparr>np_artist_id = JStr ''constructor'', np_artist_name = JStr ''constructor'',
                       np_ts = 1000\<rparr>,
        tokenStore = []\<rparr>
   \<and> map_of (skuMap example_config) ''constructor'' = None
   \<and> offer_active example_config
       (example_world\<lparr>wc_products := constant_catalog
          (Json (JArr [JObj [(''id'', JNum 7), (''type'', JStr ''simple''),
                             (''stock_status'', JStr ''instock'')]]))\<rparr>)
       (example_request JUndefined)
       \<lparr>nowPlaying = \<lparr>np_artist_id = JStr ''constructor'', np_artist_name = JStr ''constructor'',
                       np_ts = 1000\<rparr>,
        tokenStore = []\<rparr>
     = (\<lparr>nowPlaying = \<lparr>np_artist_id = JStr ''constructor'', np_artist_name = JStr ''constructor'',
                       np_ts = 1000\<rparr>,
         tokenStore = [(''a1b2c3d4e5'',
                        \<lparr>product_id = JNum 7, artist_id = JStr ''constructor'', createdAt = 1000\<rparr>)]\<rparr>,
        Response 200 (OfferJson
          \<lparr>visible = True, ttlSec = 25,
           artist = Some \<lparr>artist_snapshot_id = JStr ''constructor'',
                          artist_snapshot_name = JStr ''constructor''\<rparr>,
           product = Some
             \<lparr>snapshot_id = JNum 7, snapshot_sku = JUndefined, snapshot_name = JUndefined,
              snapshot_description = [], snapshot_image = JNull,
              buyUrl = ''https://subamerica.net/shop/?add-to-cart=7&quantity=1'',
              shortUrl = ''https://relay.example/b/a1b2c3d4e5'',
              qrPng = ''https://relay.example/qr/a1b2c3d4e5.png''\<rparr>\<rparr>))
   \<and> offer_active example_config example_world (example_request JUndefined)
       (fst (nowplaying example_world
              (example_request (JObj [(''artist_id'', JObj [(''toString'', JNum 1)])]))
              initial_state))
     = (fst (nowplaying example_world
              (example_request (JObj [(''artist_id'', JObj [(''toString'', JNum 1)])]))
              initial_state),
        Unhandled)"
proof -
  let ?p = "JObj [(''id'', JNum 7), (''type'', JStr ''simple''), (''stock_status'', JStr ''instock'')]"
  let ?w = "example_world\<lparr>wc_products := constant_catalog (Json (JArr [?p]))\<rparr>"
  let ?s = "\<lparr>nowPlaying = \<lparr>np_artist_id = JStr ''constructor'',
                            np_artist_name = JStr ''constructor'', np_ts = 1000\<rparr>,
             tokenStore = []\<rparr>"
  let ?snap = "\<lparr>snapshot_id = JNum 7, snapshot_sku = JUndefined, snapshot_name = JUndefined,
              snapshot_description = [], snapshot_image = JNull,
              buyUrl = ''https://subamerica.net/shop/?add-to-cart=7&quantity=1'',
              shortUrl = ''https://relay.example/b/a1b2c3d4e5'',
              qrPng = ''https://relay.example/qr/a1b2c3d4e5.png''\<rparr>"
  let ?t = "fst (nowplaying example_world
              (example_request (JObj [(''artist_id'', JObj [(''toString'', JNum 1)])]))
              initial_state)"
  have np: "fst (nowplaying example_world
                  (example_request (JObj [(''artist_id'', JStr ''constructor'')])) initial_state) = ?s"
    by (simp add: nowplaying_def example_request_def example_world_def initial_state_def
        js_or_def Let_def)
  have absent: "map_of (skuMap example_config) ''constructor'' = None"
    by (simp add: example_config_def example_skuMap_def)
  have d7: "decimal 7 = ''7''"
    by (simp add: decimal_def dec_nat.simps)
  have h: "np_artist_id (nowPlaying ?s) = JStr ''constructor''
      \<and> ''constructor'' \<in> set object_prototype_names
      \<and> map_of (skuMap example_config) ''constructor'' = None
      \<and> url_pathname ?w (WC_API_URL example_config @ ''/products'')
          = Some ''/wp-json/wc/v3/products''
      \<and> read_String (number_text ?w) (Inherited ''constructor'')
          = Inr ''function Object() { [native code] }''
      \<and> wc_products ?w ''function Object() { [native code] }'' = Json (JArr (?p # []))
      \<and> truthy ?p \<and> truthy (js_prop ?p ''id'')
      \<and> js_prop ?p ''type'' \<noteq> JStr ''variable''
      \<and> js_prop ?p ''stock_status'' = JStr ''instock''
      \<and> product_snapshot_of example_config ?w (example_request JUndefined) (random_token ?w) ?p
          = Inr ?snap"
    by (simp add: example_skuMap_def object_prototype_names_def example_world_def example_config_def
        constant_catalog_def product_snapshot_of_def product_description_def
        product_image_def js_or_def example_request_def d7)
  have tk: "random_token ?w = ''a1b2c3d4e5''" "date_now ?w = 1000"
    "OFFER_TTL_SEC example_config = 25"
    by (simp_all add: example_world_def example_config_def)
  note inst = offer_active_inherited_name [where s = ?s and cfg = example_config and w = ?w
      and req = "example_request JUndefined" and name = "''constructor''"
      and u = "''/wp-json/wc/v3/products''"
      and sku_text = "''function Object() { [native code] }''" and p = ?p and ps = "[]"
      and snapshot = ?snap and kvs = "[(''toString'', JNum 1)]" and v = "JNum 1"]
  from inst h have o: "offer_active example_config ?w (example_request JUndefined) ?s =
           (?s\<lparr>tokenStore :=
                store_set (random_token ?w)
                  \<lparr>product_id = js_prop ?p ''id'', artist_id = JStr ''constructor'',
                   createdAt = date_now ?w\<rparr>
                  (tokenStore ?s)\<rparr>,
            Response 200 (OfferJson
              \<lparr>visible = True, ttlSec = OFFER_TTL_SEC example_config,
               artist = Some \<lparr>artist_snapshot_id = JStr ''constructor'',
                              artist_snapshot_name =
                                js_or (np_artist_name (nowPlaying ?s)) (JStr ''constructor'')\<rparr>,
               product = Some ?snap\<rparr>))"
    by blast
  have o': "offer_active example_config ?w (example_request JUndefined) ?s
     = (\<lparr>nowPlaying = \<lparr>np_artist_id = JStr ''constructor'', np_artist_name = JStr ''constructor'',
                       np_ts = 1000\<rparr>,
         tokenStore = [(''a1b2c3d4e5'',
                        \<lparr>product_id = JNum 7, artist_id = JStr ''constructor'', createdAt = 1000\<rparr>)]\<rparr>,
        Response 200 (OfferJson
          \<lparr>visible = True, ttlSec = 25,
           artist = Some \<lparr>artist_snapshot_id = JStr ''constructor'',
                          artist_snapshot_name = JStr ''constructor''\<rparr>,
           product = Some ?snap\<rparr>))"
    unfolding o by (simp add: tk js_or_def)
  have t: "np_artist_id (nowPlaying ?t) = JObj [(''toString'', JNum 1)]
           \<and> map_of [(''toString'', JNum 1)] ''toString'' = Some (JNum 1)"
    by (simp add: nowplaying_def example_request_def js_or_def Let_def)
  from offer_active_inherited_name [where s = ?t and cfg = example_config and w = example_world
      and req = "example_request JUndefined" and kvs = "[(''toString'', JNum 1)]" and v = "JNum 1"] t
  have u: "offer_active example_config example_world (example_request JUndefined) ?t = (?t, Unhandled)"
    by blast
  from np absent o' u show ?thesis by blast
qed

lemma offer_active_visible:
  assumes "offer_active cfg w req s = (s', Response 200 (OfferJson off))" and "visible off"
  shows "artist off =
           Some \<lparr>artist_snapshot_id = np_artist_id (nowPlaying s),
                 artist_snapshot_name =
                   (if truthy (np_artist_name (nowPlaying s)) then np_artist_name (nowPlaying s)
                    else np_artist_id (nowPlaying s))\<rparr>"
  using assms
  by (auto simp: offer_active_def Let_def no_offer_def js_or_def
           split: if_splits option.splits fetched.splits sum.splits)

text \<open>
  C10. A \<^verbatim>\<open>POST /nowplaying\<close> whose \<^verbatim>\<open>artist_id\<close> is present (truthy, so that the
  request is not refused with 400) and whose \<^verbatim>\<open>artist_name\<close> is absent or falsy stores
  the artist id as the artist name, which is therefore not \<^verbatim>\<open>null\<close>. An offer shown by
  \<^verbatim>\<open>GET /offer/active\<close> names the artist by the stored name, and by the artist id when
  the stored name is falsy.
\<close>

theorem artist_name_defaults_to_id:
  "(truthy (js_prop (req_body req) ''artist_id'')
      \<and> \<not> truthy (js_prop (req_body req) ''artist_name'')
     \<longrightarrow> nowplaying w req s =
           (s\<lparr>nowPlaying := \<lparr>np_artist_id = js_prop (req_body req) ''artist_id'',
                              np_artist_name = js_prop (req_body req) ''artist_id'',
                              np_ts = date_now w\<rparr>\<rparr>,
            Response 200 (NowPlayingJson
              \<lparr>np_artist_id = js_prop (req_body req) ''artist_id'',
               np_artist_name = js_prop (req_body req) ''artist_id'',
               np_ts = date_now w\<rparr>))
         \<and> np_artist_name (nowPlaying (fst (nowplaying w req s))) \<noteq> JNull)
   \<and> (offer_active cfg w' req' s' = (s'', Response 200 (OfferJson off)) \<and> visible off
      \<longrightarrow> artist off =
           Some \<lparr>artist_snapshot_id = np_artist_id (nowPlaying s'),
                 artist_snapshot_name =
                   (if truthy (np_artist_name (nowPlaying s')) then np_artist_name (nowPlaying s')
                    else np_artist_id (nowPlaying s'))\<rparr>)"
proof (intro conjI impI)
  assume a: "truthy (js_prop (req_body req) ''artist_id'')
      \<and> \<not> truthy (js_prop (req_body req) ''artist_name'')"
  then have b: "truthy (req_body req)"
    using truthy_js_prop by blast
  from a b show n: "nowplaying w req s =
           (s\<lparr>nowPlaying := \<lparr>np_artist_id = js_prop (req_body req) ''artist_id'',
                              np_artist_name = js_prop (req_body req) ''artist_id'',
                              np_ts = date_now w\<rparr>\<rparr>,
            Response 200 (NowPlayingJson
              \<lparr>np_artist_id = js_prop (req_body req) ''artist_id'',
               np_artist_name = js_prop (req_body req) ''artist_id'',
               np_ts = date_now w\<rparr>))"
    by (simp add: nowplaying_def js_or_def Let_def)
  from a show "np_artist_name (nowPlaying (fst (nowplaying w req s))) \<noteq> JNull"
    unfolding n by auto
next
  assume "offer_active cfg w' req' s' = (s'', Response 200 (OfferJson off)) \<and> visible off"
  then show "artist off =
           Some \<lparr>artist_snapshot_id = np_artist_id (nowPlaying s'),
                 artist_snapshot_name =
                   (if truthy (np_artist_name (nowPlaying s')) then np_artist_name (nowPlaying s')
                    else np_artist_id (nowPlaying s'))\<rparr>"
    using offer_active_visible by blast
qed

text \<open>
  A request with \<^verbatim>\<open>artist_id\<close> only, and an offer for a state whose artist name is
  \<^verbatim>\<open>null\<close>.
\<close>

theorem artist_name_defaults_to_id_witness:
  "nowplaying example_world (example_request (JObj [(''artist_id'', JStr ''colleenanthony'')]))
     initial_state
   = (initial_state\<lparr>nowPlaying :=
        \<lparr>np_artist_id = JStr ''colleenanthony'', np_artist_name = JStr ''colleenanthony'',
         np_ts = 1000\<rparr>\<rparr>,
      Response 200 (NowPlayingJson
        \<lparr>np_artist_id = JStr ''colleenanthony'', np_artist_name = JStr ''colleenanthony'',
         np_ts = 1000\<rparr>))
   \<and> offer_active example_config example_world (example_request JUndefined)
       (initial_state\<lparr>nowPlaying :=
          \<lparr>np_artist_id = JStr ''colleenanthony'', np_artist_name = JNull, np_ts = 1000\<rparr>\<rparr>)
   = (\<lparr>nowPlaying =
         \<lparr>np_artist_id = JStr ''colleenanthony'', np_artist_name = JNull, np_ts = 1000\<rparr>,
       tokenStore =
         [(''a1b2c3d4e5'',
           \<lparr>product_id = JNum 42, artist_id = JStr ''colleenanthony'', createdAt = 1000\<rparr>)]\<rparr>,
      Response 200 (OfferJson
        \<lparr>visible = True, ttlSec = 25,
         artist = Some \<lparr>artist_snapshot_id = JStr ''colleenanthony'',
                        artist_snapshot_name = JStr ''colleenanthony''\<rparr>,
         product = Some
           \<lparr>snapshot_id = JNum 42, snapshot_sku = JStr ''0002'', snapshot_name = JUndefined,
            snapshot_description = [], snapshot_image = JNull,
            buyUrl = ''https://subamerica.net/shop/?add-to-cart=42&quantity=1'',
            shortUrl = ''https://relay.example/b/a1b2c3d4e5'',
            qrPng = ''https://relay.example/qr/a1b2c3d4e5.png''\<rparr>\<rparr>))"
proof -
  let ?req = "example_request (JObj [(''artist_id'', JStr ''colleenanthony'')])"
  let ?s = "initial_state\<lparr>nowPlaying :=
          \<lparr>np_artist_id = JStr ''colleenanthony'', np_artist_name = JNull, np_ts = 1000\<rparr>\<rparr>"
  have h: "truthy (js_prop (req_body ?req) ''artist_id'')
           \<and> \<not> truthy (js_prop (req_body ?req) ''artist_name'')"
    by (simp add: example_request_def)
  have v: "js_prop (req_body ?req) ''artist_id'' = JStr ''colleenanthony''"
    by (simp add: example_request_def)
  have n: "date_now example_world = 1000"
    by (simp add: example_world_def)
  have d: "decimal 42 = ''42''"
    by (simp add: decimal_def dec_nat.simps)
  obtain s'' off where ev: "offer_active example_config example_world (example_request JUndefined) ?s
      = (s'', Response 200 (OfferJson off))"
    and s'': "s'' = \<lparr>nowPlaying =
         \<lparr>np_artist_id = JStr ''colleenanthony'', np_artist_name = JNull, np_ts = 1000\<rparr>,
       tokenStore =
         [(''a1b2c3d4e5'',
           \<lparr>product_id = JNum 42, artist_id = JStr ''colleenanthony'', createdAt = 1000\<rparr>)]\<rparr>"
    and vis: "visible off" "ttlSec off = 25"
    and prd: "product off = Some
           \<lparr>snapshot_id = JNum 42, snapshot_sku = JStr ''0002'', snapshot_name = JUndefined,
            snapshot_description = [], snapshot_image = JNull,
            buyUrl = ''https://subamerica.net/shop/?add-to-cart=42&quantity=1'',
            shortUrl = ''https://relay.example/b/a1b2c3d4e5'',
            qrPng = ''https://relay.example/qr/a1b2c3d4e5.png''\<rparr>"
    by (simp add: offer_active_def example_config_def example_world_def example_request_def
        initial_state_def example_skuMap_def example_catalog_def js_or_def Let_def
        product_description_def product_image_def product_snapshot_of_def
        plain_object_read_def d)
  from artist_name_defaults_to_id [where req = ?req and w = example_world and s = initial_state
      and cfg = example_config and w' = example_world and req' = "example_request JUndefined"
      and s' = ?s and s'' = s'' and off = off] h ev vis(1)
  have np: "nowplaying example_world ?req initial_state =
           (initial_state\<lparr>nowPlaying := \<lparr>np_artist_id = js_prop (req_body ?req) ''artist_id'',
                              np_artist_name = js_prop (req_body ?req) ''artist_id'',
                              np_ts = date_now example_world\<rparr>\<rparr>,
            Response 200 (NowPlayingJson
              \<lparr>np_artist_id = js_prop (req_body ?req) ''artist_id'',
               np_artist_name = js_prop (req_body ?req) ''artist_id'',
               np_ts = date_now example_world\<rparr>))"
    and ar: "artist off =
           Some \<lparr>artist_snapshot_id = np_artist_id (nowPlaying ?s),
                 artist_snapshot_name =
                   (if truthy (np_artist_name (nowPlaying ?s)) then np_artist_name (nowPlaying ?s)
                    else np_artist_id (nowPlaying ?s))\<rparr>"
    by blast+
  have off: "off = \<lparr>visible = True, ttlSec = 25,
         artist = Some \<lparr>artist_snapshot_id = JStr ''colleenanthony'',
                        artist_snapshot_name = JStr ''colleenanthony''\<rparr>,
         product = Some
           \<lparr>snapshot_id = JNum 42, snapshot_sku = JStr ''0002'', snapshot_name = JUndefined,
            snapshot_description = [], snapshot_image = JNull,
            buyUrl = ''https://subamerica.net/shop/?add-to-cart=42&quantity=1'',
            shortUrl = ''https://relay.example/b/a1b2c3d4e5'',
            qrPng = ''https://relay.example/qr/a1b2c3d4e5.png''\<rparr>\<rparr>"
    using vis prd ar by (cases off) simp
  show ?thesis
    using np ev by (simp add: v n off s'')
qed

end
